theory Spec2Isabelle
  imports Main "HOL-Library.Sublist" "HOL-Library.Log_Nat"
begin

section \<open>Python primitives used by the sources\<close>

text \<open>
  Strings are byte strings (\<open>char list\<close>), a non-ASCII character of the source being its
  UTF-8 bytes. The substring test \<open>kw in text\<close> of Python is \<^const>\<open>sublist\<close>.

  Two library functions read characters beyond ASCII through tables of the Unicode
  standard: \<open>str.lower\<close> (U+212A, the Kelvin sign, becomes \<open>k\<close>) and the \<open>\d\<close> of
  \<open>datetime.strptime\<close> (every decimal digit of every script). On ASCII text both are
  modelled in full; their value on any other text is a parameter of the model, written
  \<open>unicode_lower\<close> and \<open>unicode_strptime\<close>, so that a theorem about all parameters is
  a theorem about Python's functions.
\<close>

definition is_ascii :: "char \<Rightarrow> bool" where
  "is_ascii c = (\<not> digit7 c)"

datatype error = ValueError | KeyError | IndexError | OverflowError

text \<open>\<open>sep.join(xs)\<close>\<close>

fun join :: "string \<Rightarrow> string list \<Rightarrow> string" where
  "join sep [] = []"
| "join sep [x] = x"
| "join sep (x # y # ys) = x @ sep @ join sep (y # ys)"

text \<open>\<open>xs.index(x)\<close>: the position of the first occurrence; \<open>None\<close> where Python raises.\<close>

fun list_index :: "'a list \<Rightarrow> 'a \<Rightarrow> nat option" where
  "list_index [] x = None"
| "list_index (y # ys) x = (if y = x then Some 0 else map_option Suc (list_index ys x))"

text \<open>The lower-case form of an ASCII character.\<close>

definition lower_char :: "char \<Rightarrow> char" where
  "lower_char c =
     (case list_index ''ABCDEFGHIJKLMNOPQRSTUVWXYZ'' c of
        Some i \<Rightarrow> ''abcdefghijklmnopqrstuvwxyz'' ! i
      | None \<Rightarrow> c)"

text \<open>\<open>s.lower()\<close>\<close>

definition lower :: "(string \<Rightarrow> string) \<Rightarrow> string \<Rightarrow> string" where
  "lower unicode_lower s = (if list_all is_ascii s then map lower_char s else unicode_lower s)"

text \<open>
  \<open>max(d, key=d.get)\<close> over a dictionary in insertion order: the running maximum is
  replaced only by a strictly greater value, so the first maximal key wins.
\<close>

fun max_loop :: "'a \<Rightarrow> nat \<Rightarrow> ('a \<times> nat) list \<Rightarrow> 'a" where
  "max_loop best bestval [] = best"
| "max_loop best bestval ((k, v) # rest) =
     (if v > bestval then max_loop k v rest else max_loop best bestval rest)"

section \<open>business_analyzer.py: the classifier\<close>

definition industry_keywords :: "(string \<times> string list) list" where
  "industry_keywords =
    [(''fitness'', [''gym'', ''fitness'', ''workout'', ''training'', ''exercise'', ''health club'',
        ''personal trainer'']),
     (''beauty'', [''salon'', ''spa'', ''beauty'', ''hair'', ''nail'', ''massage'', ''facial'',
        ''cosmetic'']),
     (''food'', [''restaurant'', ''cafe'', ''coffee'', ''dining'', ''food'', ''bakery'', ''catering'',
        ''bistro'']),
     (''retail'', [''shop'', ''store'', ''boutique'', ''retail'', ''fashion'', ''clothing'',
        ''accessories'']),
     (''healthcare'', [''medical'', ''dental'', ''clinic'', ''doctor'', ''healthcare'', ''therapy'',
        ''wellness'']),
     (''education'', [''school'', ''academy'', ''training'', ''education'', ''learning'', ''course'',
        ''tutor'']),
     (''professional'', [''consulting'', ''legal'', ''accounting'', ''financial'', ''insurance'',
        ''real estate'']),
     (''automotive'', [''auto'', ''car'', ''garage'', ''mechanic'', ''repair'', ''dealership'',
        ''vehicle'']),
     (''entertainment'', [''entertainment'', ''event'', ''party'', ''music'', ''venue'', ''club'',
        ''theater''])]"

definition tone_indicators :: "(string \<times> string list) list" where
  "tone_indicators =
    [(''professional'', [''expert'', ''professional'', ''certified'', ''licensed'', ''quality'',
        ''experience'']),
     (''friendly'', [''friendly'', ''welcome'', ''family'', ''community'', ''caring'', ''personal'',
        ''warm'']),
     (''casual'', [''fun'', ''easy'', ''simple'', ''relaxed'', ''comfortable'', ''laid-back'',
        ''chill'']),
     (''premium'', [''luxury'', ''premium'', ''exclusive'', ''high-end'', ''elite'',
        ''sophisticated'', ''upscale''])]"

text \<open>\<open>sum(1 for keyword in keywords if keyword in all_text)\<close>\<close>

definition keyword_score :: "string list \<Rightarrow> string \<Rightarrow> nat" where
  "keyword_score keywords all_text =
     sum_list (map (\<lambda>keyword. 1) (filter (\<lambda>keyword. sublist keyword all_text) keywords))"

text \<open>The loop that fills the score dictionary: only buckets with a positive score enter it.\<close>

fun collect_scores :: "(string \<times> string list) list \<Rightarrow> string \<Rightarrow> (string \<times> nat) list" where
  "collect_scores [] all_text = []"
| "collect_scores ((bucket, keywords) # rest) all_text =
     (let score = keyword_score keywords all_text in
      if score > 0 then (bucket, score) # collect_scores rest all_text
      else collect_scores rest all_text)"

definition all_text :: "(string \<Rightarrow> string) \<Rightarrow> string \<Rightarrow> string list \<Rightarrow> string" where
  "all_text unicode_lower text services = text @ '' '' @ lower unicode_lower (join '' '' services)"

definition classify_industry :: "(string \<Rightarrow> string) \<Rightarrow> string \<Rightarrow> string list \<Rightarrow> string" where
  "classify_industry unicode_lower text services =
     (case collect_scores industry_keywords (all_text unicode_lower text services) of
        (k, v) # rest \<Rightarrow> max_loop k v rest
      | [] \<Rightarrow> ''general'')"

definition analyze_tone :: "string \<Rightarrow> string" where
  "analyze_tone text =
     (case collect_scores tone_indicators text of
        (k, v) # rest \<Rightarrow> max_loop k v rest
      | [] \<Rightarrow> ''professional'')"

text \<open>The score of one named bucket, for stating what the classifier returns.\<close>

definition bucket_score :: "(string \<times> string list) list \<Rightarrow> string \<Rightarrow> string \<Rightarrow> nat" where
  "bucket_score table bucket body =
     (case map_of table bucket of Some keywords \<Rightarrow> keyword_score keywords body | None \<Rightarrow> 0)"

text \<open>Every bucket of a table with its score, zero or not, in the table's order.\<close>

definition scored :: "(string \<times> string list) list \<Rightarrow> string \<Rightarrow> (string \<times> nat) list" where
  "scored table body = map (\<lambda>(bucket, keywords). (bucket, keyword_score keywords body)) table"

section \<open>Python values, dictionaries and lists\<close>

text \<open>
  A post is a Python dictionary; its values are strings, integers, lists and dictionaries.
  A dictionary is an association list in insertion order.
\<close>

datatype pyval = PNone | PStr string | PInt int | PList "pyval list" | PDict "(string \<times> pyval) list"

type_synonym post = "(string \<times> pyval) list"

text \<open>\<open>d.get(key, default)\<close>\<close>

definition dict_get :: "(string \<times> 'v) list \<Rightarrow> string \<Rightarrow> 'v \<Rightarrow> 'v" where
  "dict_get d key dflt = (case map_of d key of Some v \<Rightarrow> v | None \<Rightarrow> dflt)"

text \<open>\<open>xs[:n]\<close> for a Python integer \<open>n\<close>: a negative bound counts from the end.\<close>

definition slice_to :: "'a list \<Rightarrow> int \<Rightarrow> 'a list" where
  "slice_to xs n = (if 0 \<le> n then take (nat n) xs else take (nat (int (length xs) + n)) xs)"

text \<open>
  \<open>str.title()\<close> on ASCII text, which is all the scheduler applies it to (the seven day
  names): a letter after a non-letter is upper-cased, any other letter lower-cased.
\<close>

definition upper_char :: "char \<Rightarrow> char" where
  "upper_char c =
     (case list_index ''abcdefghijklmnopqrstuvwxyz'' c of
        Some i \<Rightarrow> ''ABCDEFGHIJKLMNOPQRSTUVWXYZ'' ! i
      | None \<Rightarrow> c)"

definition is_alpha :: "char \<Rightarrow> bool" where
  "is_alpha c = (c \<in> set ''ABCDEFGHIJKLMNOPQRSTUVWXYZ'' \<or> c \<in> set ''abcdefghijklmnopqrstuvwxyz'')"

fun title_from :: "bool \<Rightarrow> string \<Rightarrow> string" where
  "title_from previous_is_cased [] = []"
| "title_from previous_is_cased (c # cs) =
     (if is_alpha c
      then (if previous_is_cased then lower_char c else upper_char c) # title_from True cs
      else c # title_from False cs)"

definition title :: "string \<Rightarrow> string" where
  "title s = title_from False s"

section \<open>Calendar dates: \<open>datetime.strptime\<close>, \<open>timedelta\<close>, \<open>strftime\<close>\<close>

text \<open>
  Only the calendar date of a \<open>datetime\<close> is ever read by the scheduler (the format is
  \<open>%Y-%m-%d\<close> and the offsets are whole days), so a \<open>datetime\<close> is its year, month and day.
\<close>

record datetime =
  year :: nat
  month :: nat
  mday :: nat

definition is_leap :: "nat \<Rightarrow> bool" where
  "is_leap y = (y mod 4 = 0 \<and> (y mod 100 \<noteq> 0 \<or> y mod 400 = 0))"

definition days_in_month :: "nat \<Rightarrow> nat \<Rightarrow> nat" where
  "days_in_month y m =
     (if m = 2 then (if is_leap y then 29 else 28)
      else if m = 4 \<or> m = 6 \<or> m = 9 \<or> m = 11 then 30 else 31)"

definition next_day :: "datetime \<Rightarrow> datetime" where
  "next_day d =
     (if mday d < days_in_month (year d) (month d) then d\<lparr>mday := mday d + 1\<rparr>
      else if month d < 12 then d\<lparr>month := month d + 1, mday := 1\<rparr>
      else \<lparr>year = year d + 1, month = 1, mday = 1\<rparr>)"

text \<open>
  \<open>start + timedelta(days=i)\<close> for \<open>i \<ge> 0\<close>: the date \<open>i\<close> days later, or OverflowError
  past the year 9999.
\<close>

definition plus_days :: "datetime \<Rightarrow> nat \<Rightarrow> error + datetime" where
  "plus_days start i =
     (let d = (next_day ^^ i) start in if 9999 < year d then Inl OverflowError else Inr d)"

definition is_digit :: "char \<Rightarrow> bool" where
  "is_digit c = (c \<in> set ''0123456789'')"

definition digit_val :: "char \<Rightarrow> nat" where
  "digit_val c = (case list_index ''0123456789'' c of Some n \<Rightarrow> n | None \<Rightarrow> 0)"

text \<open>
  The groups of the regular expression that \<open>strptime\<close> builds for \<open>%Y-%m-%d\<close>:
  \<open>\d\d\d\d\<close>, then \<open>1[0-2]|0[1-9]|[1-9]\<close>, then \<open>3[0-1]|[1-2]\d|0[1-9]|[1-9]| [1-9]\<close>,
  each returning the number read and the rest of the input.
\<close>

definition match_Y :: "string \<Rightarrow> (nat \<times> string) option" where
  "match_Y s =
     (case s of
        a # b # c # d # rest \<Rightarrow>
          if is_digit a \<and> is_digit b \<and> is_digit c \<and> is_digit d
          then Some (1000 * digit_val a + 100 * digit_val b + 10 * digit_val c + digit_val d, rest)
          else None
      | _ \<Rightarrow> None)"

definition match_one :: "string \<Rightarrow> (nat \<times> string) option" where
  "match_one s =
     (case s of
        a # rest \<Rightarrow> if is_digit a \<and> a \<noteq> CHR ''0'' then Some (digit_val a, rest) else None
      | [] \<Rightarrow> None)"

definition match_m :: "string \<Rightarrow> (nat \<times> string) option" where
  "match_m s =
     (case s of
        a # b # rest \<Rightarrow>
          if a = CHR ''1'' \<and> (b = CHR ''0'' \<or> b = CHR ''1'' \<or> b = CHR ''2'')
          then Some (10 + digit_val b, rest)
          else if a = CHR ''0'' \<and> is_digit b \<and> b \<noteq> CHR ''0'' then Some (digit_val b, rest)
          else match_one s
      | _ \<Rightarrow> match_one s)"

definition match_d :: "string \<Rightarrow> (nat \<times> string) option" where
  "match_d s =
     (case s of
        a # b # rest \<Rightarrow>
          if a = CHR ''3'' \<and> (b = CHR ''0'' \<or> b = CHR ''1'') then Some (30 + digit_val b, rest)
          else if (a = CHR ''1'' \<or> a = CHR ''2'') \<and> is_digit b
          then Some (10 * digit_val a + digit_val b, rest)
          else if a = CHR ''0'' \<and> is_digit b \<and> b \<noteq> CHR ''0'' then Some (digit_val b, rest)
          else if is_digit a \<and> a \<noteq> CHR ''0'' then Some (digit_val a, b # rest)
          else if a = CHR '' '' \<and> is_digit b \<and> b \<noteq> CHR ''0'' then Some (digit_val b, rest)
          else None
      | _ \<Rightarrow> match_one s)"

definition match_dash :: "string \<Rightarrow> string option" where
  "match_dash s = (case s of a # rest \<Rightarrow> if a = CHR ''-'' then Some rest else None | [] \<Rightarrow> None)"

text \<open>
  \<open>datetime.strptime(start_date, '%Y-%m-%d')\<close> on ASCII text: ValueError when the text
  does not match, when text remains after the day, and when the date does not exist (year 0,
  30 February).
\<close>

definition strptime_ascii :: "string \<Rightarrow> error + datetime" where
  "strptime_ascii s =
     (case match_Y s of None \<Rightarrow> Inl ValueError | Some (y, s1) \<Rightarrow>
      case match_dash s1 of None \<Rightarrow> Inl ValueError | Some s2 \<Rightarrow>
      case match_m s2 of None \<Rightarrow> Inl ValueError | Some (m, s3) \<Rightarrow>
      case match_dash s3 of None \<Rightarrow> Inl ValueError | Some s4 \<Rightarrow>
      case match_d s4 of None \<Rightarrow> Inl ValueError | Some (d, s5) \<Rightarrow>
        if s5 \<noteq> [] then Inl ValueError
        else if y < 1 \<or> days_in_month y m < d then Inl ValueError
        else Inr \<lparr>year = y, month = m, mday = d\<rparr>)"

text \<open>\<open>datetime.strptime(s, '%Y-%m-%d')\<close>\<close>

definition strptime :: "(string \<Rightarrow> error + datetime) \<Rightarrow> string \<Rightarrow> error + datetime" where
  "strptime unicode_strptime s =
     (if list_all is_ascii s then strptime_ascii s else unicode_strptime s)"

definition digit_char :: "nat \<Rightarrow> char" where
  "digit_char n = ''0123456789'' ! (n mod 10)"

text \<open>Decimal digits of a number, at least \<open>width\<close> of them.\<close>

fun zero_pad :: "nat \<Rightarrow> nat \<Rightarrow> string" where
  "zero_pad 0 n = (if n = 0 then [] else zero_pad 0 (n div 10) @ [digit_char n])"
| "zero_pad (Suc width) n = zero_pad width (n div 10) @ [digit_char n]"

declare zero_pad.simps [simp del]

text \<open>
  \<open>day_date.strftime('%Y-%m-%d')\<close> as the C library of Linux formats it: month and day
  with two digits, the year with as many digits as it has (\<open>999-01-01\<close>).
\<close>

definition strftime :: "datetime \<Rightarrow> string" where
  "strftime d = zero_pad 1 (year d) @ ''-'' @ zero_pad 2 (month d) @ ''-'' @ zero_pad 2 (mday d)"





text \<open>\<open>d[key] = value\<close>: an existing key keeps its place, a new key goes last.\<close>

fun dict_set :: "(string \<times> 'v) list \<Rightarrow> string \<Rightarrow> 'v \<Rightarrow> (string \<times> 'v) list" where
  "dict_set [] key v = [(key, v)]"
| "dict_set ((k, w) # d) key v = (if k = key then (k, v) # d else (k, w) # dict_set d key v)"

definition enumerate :: "'a list \<Rightarrow> (nat \<times> 'a) list" where
  "enumerate xs = zip [0..<length xs] xs"

section \<open>content_generator.py: the weekly scheduler\<close>

definition days :: "string list" where
  "days = [''monday'', ''tuesday'', ''wednesday'', ''thursday'', ''friday'', ''saturday'', ''sunday'']"

text \<open>One value of the schedule dictionary; \<open>post = None\<close> is Python's \<open>None\<close>.\<close>

record entry =
  date :: string
  post :: "post option"
  suggested_time :: pyval
  day_of_week :: string

text \<open>
  The first lines of \<open>create_weekly_schedule\<close>: a non-empty \<open>start_date\<close> is parsed, an
  empty or absent one is replaced by the current time, which the model takes as \<open>now\<close>.
\<close>

definition start_of ::
  "(string \<Rightarrow> error + datetime) \<Rightarrow> datetime \<Rightarrow> string option \<Rightarrow> error + datetime" where
  "start_of unicode_strptime now start_date =
     (case start_date of
        Some s \<Rightarrow> if s \<noteq> [] then strptime unicode_strptime s else Inr now
      | None \<Rightarrow> Inr now)"

definition default_days :: "int \<Rightarrow> string list" where
  "default_days frequency =
     (if frequency \<le> 3 then [''monday'', ''wednesday'', ''friday'']
      else if frequency \<le> 5 then [''monday'', ''tuesday'', ''thursday'', ''friday'', ''saturday'']
      else days)"

text \<open>The posting days: the first \<open>frequency\<close> preferred days, filled up from the week.\<close>

definition posting_days_of :: "int \<Rightarrow> string list option \<Rightarrow> string list" where
  "posting_days_of frequency preferred_days =
     (let preferred_days =
            (case preferred_days of
               None \<Rightarrow> default_days frequency
             | Some [] \<Rightarrow> default_days frequency
             | Some ds \<Rightarrow> ds);
          posting_days = slice_to preferred_days frequency
      in if int (length posting_days) < frequency
         then (let remaining_days = filter (\<lambda>day. day \<notin> set posting_days) days
               in posting_days @ slice_to remaining_days (frequency - int (length posting_days)))
         else posting_days)"

text \<open>
  The body of the loop over \<open>enumerate(self.days)\<close>: a day is filled when it is among
  the posting days and its first position there is below the number of posts.
\<close>

definition slot_entry :: "datetime \<Rightarrow> post list \<Rightarrow> string list \<Rightarrow> string \<Rightarrow> entry" where
  "slot_entry day_date posts posting_days day =
     (case list_index posting_days day of
        Some post_index \<Rightarrow>
          if post_index < length posts
          then \<lparr>date = strftime day_date,
                post = Some (posts ! post_index),
                suggested_time =
                  dict_get (posts ! post_index) ''best_time_to_post'' (PStr ''12:00 PM''),
                day_of_week = title day\<rparr>
          else \<lparr>date = strftime day_date, post = None, suggested_time = PNone,
                day_of_week = title day\<rparr>
      | None \<Rightarrow>
          \<lparr>date = strftime day_date, post = None, suggested_time = PNone,
            day_of_week = title day\<rparr>)"

fun schedule_loop ::
  "datetime \<Rightarrow> post list \<Rightarrow> string list \<Rightarrow> (nat \<times> string) list \<Rightarrow> (string \<times> entry) list
     \<Rightarrow> error + (string \<times> entry) list" where
  "schedule_loop start posts posting_days [] schedule = Inr schedule"
| "schedule_loop start posts posting_days ((i, day) # rest) schedule =
     (case plus_days start i of
        Inl e \<Rightarrow> Inl e
      | Inr day_date \<Rightarrow>
          schedule_loop start posts posting_days rest
            (dict_set schedule day (slot_entry day_date posts posting_days day)))"

definition create_weekly_schedule ::
  "(string \<Rightarrow> error + datetime) \<Rightarrow> datetime \<Rightarrow> post list \<Rightarrow> int \<Rightarrow> string list option
     \<Rightarrow> string option \<Rightarrow> error + (string \<times> entry) list" where
  "create_weekly_schedule unicode_strptime now posts frequency preferred_days start_date =
     (case start_of unicode_strptime now start_date of
        Inl e \<Rightarrow> Inl e
      | Inr start \<Rightarrow>
          schedule_loop start posts (posting_days_of frequency preferred_days) (enumerate days) [])"

text \<open>The days of a schedule that carry a post.\<close>

definition filled_days :: "(string \<times> entry) list \<Rightarrow> string list" where
  "filled_days schedule = map fst (filter (\<lambda>(day, e). post e \<noteq> None) schedule)"

section \<open>Randomness as an explicit source\<close>

text \<open>
  The module-level \<open>random\<close> state is an explicit stream of natural numbers. A draw takes
  the next number; \<open>random.choice\<close> reduces it modulo the length, \<open>random.sample\<close> picks
  positions one after the other from what is left. Every outcome Python can produce is the
  outcome of some stream, so a statement for all streams covers all runs.
\<close>

type_synonym rng = "nat \<Rightarrow> nat"

type_synonym 'a gen = "rng \<Rightarrow> error + ('a \<times> rng)"

definition draw :: "rng \<Rightarrow> nat \<times> rng" where
  "draw g = (g 0, \<lambda>n. g (Suc n))"

definition gen_return :: "'a \<Rightarrow> 'a gen" where
  "gen_return x = (\<lambda>g. Inr (x, g))"

definition gen_raise :: "error \<Rightarrow> 'a gen" where
  "gen_raise e = (\<lambda>g. Inl e)"

definition gen_bind :: "'a gen \<Rightarrow> ('a \<Rightarrow> 'b gen) \<Rightarrow> 'b gen" where
  "gen_bind m f = (\<lambda>g. case m g of Inl e \<Rightarrow> Inl e | Inr (x, g') \<Rightarrow> f x g')"

text \<open>The value a computation returns from a random source, or the error it raises.\<close>

definition run :: "'a gen \<Rightarrow> rng \<Rightarrow> error + 'a" where
  "run m g = map_sum id fst (m g)"

text \<open>The random source whose every draw is \<open>k\<close>.\<close>

definition constant_rng :: "nat \<Rightarrow> rng" where
  "constant_rng k = (\<lambda>n. k)"

text \<open>A property of every value a computation can return, whatever the random source.\<close>

definition gen_all :: "('a \<Rightarrow> bool) \<Rightarrow> 'a gen \<Rightarrow> bool" where
  "gen_all P m = (\<forall>g y g'. m g = Inr (y, g') \<longrightarrow> P y)"

text \<open>\<open>random.choice(seq)\<close>: IndexError on an empty sequence.\<close>

definition choice :: "'a list \<Rightarrow> 'a gen" where
  "choice seq = (\<lambda>g.
     if seq = [] then Inl IndexError
     else (case draw g of (r, g') \<Rightarrow> Inr (seq ! (r mod length seq), g')))"

fun pick_distinct :: "'a list \<Rightarrow> nat \<Rightarrow> rng \<Rightarrow> 'a list \<times> rng" where
  "pick_distinct pool 0 g = ([], g)"
| "pick_distinct pool (Suc k) g =
     (if pool = [] then ([], g)
      else (case draw g of (r, g1) \<Rightarrow>
              (case pick_distinct (take (r mod length pool) pool @ drop (Suc (r mod length pool)) pool)
                      k g1 of
                 (rest, g2) \<Rightarrow> (pool ! (r mod length pool) # rest, g2))))"

text \<open>\<open>random.sample(population, k)\<close>: \<open>k\<close> positions without repetition; ValueError when
  the sample is larger than the population.\<close>

definition sample :: "'a list \<Rightarrow> nat \<Rightarrow> 'a list gen" where
  "sample population k = (\<lambda>g.
     if length population < k then Inl ValueError else Inr (pick_distinct population k g))"

section \<open>\<open>str.format\<close> on the templates\<close>

text \<open>
  \<open>template.format(**content_vars)\<close> for templates whose fields are plain names in single
  braces, which is what the template table holds: a field is replaced by its value, a name
  without a value raises KeyError, a brace without its partner ValueError. The scanner reads
  left to right; its second argument is the field name read so far, inside braces.
\<close>

fun format_scan :: "(string \<times> string) list \<Rightarrow> string option \<Rightarrow> string \<Rightarrow> error + string" where
  "format_scan vars None [] = Inr []"
| "format_scan vars (Some field) [] = Inl ValueError"
| "format_scan vars None (c # cs) =
     (if c = CHR ''{'' then format_scan vars (Some []) cs
      else if c = CHR ''}'' then Inl ValueError
      else (case format_scan vars None cs of Inl e \<Rightarrow> Inl e | Inr out \<Rightarrow> Inr (c # out)))"
| "format_scan vars (Some field) (c # cs) =
     (if c = CHR ''}''
      then (case map_of vars field of
              None \<Rightarrow> Inl KeyError
            | Some v \<Rightarrow>
                (case format_scan vars None cs of Inl e \<Rightarrow> Inl e | Inr out \<Rightarrow> Inr (v @ out)))
      else format_scan vars (Some (field @ [c])) cs)"

definition format_template :: "string \<Rightarrow> (string \<times> string) list \<Rightarrow> error + string" where
  "format_template template vars = format_scan vars None template"

section \<open>Floating point: the tone multipliers\<close>

text \<open>
  A Python float is an IEEE 754 double. \<open>Double m e\<close> is the number \<open>m * 2 ^ e\<close>; the result
  of an operation is the exact result rounded to 53 significant bits, ties to even. The
  numbers met here are far from overflow and underflow, which the model leaves out.
\<close>

datatype double = Double int int

text \<open>\<open>int.bit_length()\<close> of a positive integer.\<close>

function bit_length :: "int \<Rightarrow> nat" where
  "bit_length m = (if m \<le> 0 then 0 else Suc (bit_length (m div 2)))"
  by pat_completeness auto
termination
  by (relation "measure nat") auto

declare bit_length.simps [simp del]

text \<open>\<open>m / 2 ^ s\<close> rounded to the nearest integer, a tie to the even one, for \<open>m \<ge> 0\<close>.\<close>

definition round_even :: "int \<Rightarrow> nat \<Rightarrow> int" where
  "round_even m s =
     (let q = m div 2 ^ s; r = m mod 2 ^ s
      in if 2 ^ s < 2 * r \<or> (2 * r = 2 ^ s \<and> odd q) then q + 1 else q)"

definition round_double :: "int \<Rightarrow> int \<Rightarrow> double" where
  "round_double m e =
     (let n = bit_length \<bar>m\<bar>
      in if n \<le> 53 then Double m e
         else Double (sgn m * round_even \<bar>m\<bar> (n - 53)) (e + int (n - 53)))"

definition float_mul :: "double \<Rightarrow> double \<Rightarrow> double" where
  "float_mul a b = (case a of Double m1 e1 \<Rightarrow> case b of Double m2 e2 \<Rightarrow> round_double (m1 * m2) (e1 + e2))"

text \<open>\<open>float(n)\<close>, the conversion an \<open>int * float\<close> product starts with.\<close>

definition float_of_int :: "int \<Rightarrow> double" where
  "float_of_int n = round_double n 0"

text \<open>\<open>int(x)\<close>: truncation towards zero.\<close>

definition int_of_float :: "double \<Rightarrow> int" where
  "int_of_float a =
     (case a of Double m e \<Rightarrow>
        if 0 \<le> e then m * 2 ^ nat e else sgn m * (\<bar>m\<bar> div 2 ^ nat (- e)))"

text \<open>\<open>a > b\<close>\<close>

definition float_gt :: "double \<Rightarrow> double \<Rightarrow> bool" where
  "float_gt a b =
     (case a of Double m1 e1 \<Rightarrow> case b of Double m2 e2 \<Rightarrow>
        m2 * 2 ^ nat (e2 - min e1 e2) < m1 * 2 ^ nat (e1 - min e1 e2))"

text \<open>The doubles that the literals \<open>1.2\<close>, \<open>1.1\<close>, \<open>1.0\<close> and \<open>0.9\<close> denote.\<close>

definition lit_1_2 :: double where "lit_1_2 = Double 5404319552844595 (- 52)"
definition lit_1_1 :: double where "lit_1_1 = Double 4953959590107546 (- 52)"
definition lit_1_0 :: double where "lit_1_0 = Double 1 0"
definition lit_0_9 :: double where "lit_0_9 = Double 8106479329266893 (- 53)"

section \<open>content_generator.py: the tables\<close>

record industry_data =
  offers :: "string list"
  tips :: "string list"
  value_props :: "string list"
  hashtags :: "string list"

definition post_templates :: "(string \<times> (string \<times> string list) list) list" where
  "post_templates =
    [(''promo'',
       [(''professional'',
          [''We're excited to announce {offer}! {business_name} is committed to providing {value_prop}. {call_to_action} {contact_info}'',
           ''Limited time offer: {offer}. Experience the {business_name} difference. {call_to_action}'',
           ''Special promotion alert! {offer} at {business_name}. {value_prop} {call_to_action}'']),
        (''friendly'',
          [''Hey everyone! '' @ [CHR 0xF0, CHR 0x9F, CHR 0x8E, CHR 0x89] @ '' We've got something special for you: {offer}! Come see us at {business_name} and {value_prop}. {call_to_action}'',
           ''Guess what? {offer} is here! '' @ [CHR 0xF0, CHR 0x9F, CHR 0x98, CHR 0x8A] @ '' We can't wait to see you at {business_name}. {call_to_action}'',
           ''Friends, we're so excited to share {offer} with you! {business_name} is all about {value_prop}. {call_to_action}'']),
        (''casual'',
          [''Yo! {offer} just dropped! '' @ [CHR 0xF0, CHR 0x9F, CHR 0x94, CHR 0xA5] @ '' Come through {business_name} and check it out. {call_to_action}'',
           ''New deal alert! {offer} - because you deserve the best. {call_to_action}'',
           ''PSA: {offer} is happening now! Don't sleep on this one. {call_to_action}'']),
        (''premium'',
          [''Exclusive opportunity: {offer}. Discover the luxury experience at {business_name}. {value_prop} {call_to_action}'',
           ''Elevate your experience with {offer}. {business_name} - where excellence meets sophistication. {call_to_action}'',
           ''Premium members, this is for you: {offer}. Experience unparalleled {value_prop} at {business_name}.''])]),
     (''tip'',
       [(''professional'',
          [''Professional tip: {tip_content}. At {business_name}, we believe in sharing knowledge to help you {benefit}. {call_to_action}'',
           ''Industry insight: {tip_content} This is why at {business_name}, we focus on {value_prop}. {call_to_action}'',
           ''Expert advice: {tip_content} Trust {business_name} for professional {industry} guidance.'']),
        (''friendly'',
          [''Quick tip from your friends at {business_name}: {tip_content} '' @ [CHR 0xF0, CHR 0x9F, CHR 0x92, CHR 0xA1] @ '' We love helping you {benefit}! {call_to_action}'',
           ''Here's something helpful: {tip_content} '' @ [CHR 0xE2, CHR 0x9C, CHR 0xA8] @ '' That's just one way we care for our {business_name} family! {call_to_action}'',
           ''Friendly reminder: {tip_content} '' @ [CHR 0xF0, CHR 0x9F, CHR 0x98, CHR 0x8A] @ '' We're always here to help at {business_name}!'']),
        (''casual'',
          [''Pro tip: {tip_content} '' @ [CHR 0xF0, CHR 0x9F, CHR 0x92, CHR 0xAF] @ '' That's the kind of real talk you get from {business_name}. {call_to_action}'',
           ''Life hack: {tip_content} You're welcome! '' @ [CHR 0xF0, CHR 0x9F, CHR 0x98, CHR 0x8E] @ '' More tips coming from your crew at {business_name}.'',
           ''Real talk: {tip_content} That's how we roll at {business_name}. {call_to_action}'']),
        (''premium'',
          [''Expert insight: {tip_content} This level of expertise is what distinguishes {business_name}. {call_to_action}'',
           ''Exclusive knowledge: {tip_content} Elevate your {industry} experience with {business_name}.'',
           ''Professional mastery: {tip_content} Discover the {business_name} advantage.''])]),
     (''update'',
       [(''professional'',
          [''Update from {business_name}: {update_content}. We're committed to {value_prop} and keeping you informed. {call_to_action}'',
           ''Business update: {update_content} Thank you for your continued trust in {business_name}. {call_to_action}'',
           ''Important notice: {update_content} {business_name} remains dedicated to serving you with excellence.'']),
        (''friendly'',
          [''Hey everyone! Quick update from the {business_name} family: {update_content} '' @ [CHR 0xF0, CHR 0x9F, CHR 0x98, CHR 0x8A] @ '' {call_to_action}'',
           ''Update time! {update_content} Thanks for being part of the {business_name} community! '' @ [CHR 0xF0, CHR 0x9F, CHR 0x92, CHR 0x99] @ '' {call_to_action}'',
           ''Just wanted to let you know: {update_content} Love you all! - The {business_name} team '' @ [CHR 0xE2, CHR 0x9D, CHR 0xA4, CHR 0xEF, CHR 0xB8, CHR 0x8F]]),
        (''casual'',
          [''What's up! Quick update: {update_content} Keep doing you! '' @ [CHR 0xF0, CHR 0x9F, CHR 0xA4, CHR 0x98] @ '' - {business_name}'',
           ''Update drop: {update_content} Thanks for rolling with us! '' @ [CHR 0xF0, CHR 0x9F, CHR 0x94, CHR 0xA5] @ '' {call_to_action}'',
           ''Heads up: {update_content} Much love from {business_name}! '' @ [CHR 0xE2, CHR 0x9C, CHR 0x8C, CHR 0xEF, CHR 0xB8, CHR 0x8F]]),
        (''premium'',
          [''Exclusive update for our valued clients: {update_content} {business_name} continues to set the standard for excellence.'',
           ''Important announcement: {update_content} Your luxury experience at {business_name} remains our priority.'',
           ''Distinguished clients, please note: {update_content} {business_name} - your premier destination.''])]),
     (''insight'',
       [(''professional'',
          [''Industry insight: {insight_content} At {business_name}, we stay ahead of trends to better serve you. {call_to_action}'',
           ''Market analysis: {insight_content} This is why choosing {business_name} makes a difference. {call_to_action}'',
           ''Professional perspective: {insight_content} Trust {business_name} to keep you informed and ahead.'']),
        (''friendly'',
          [''Interesting news! {insight_content} '' @ [CHR 0xF0, CHR 0x9F, CHR 0xA4, CHR 0x93] @ '' We love staying on top of trends for our {business_name} family! {call_to_action}'',
           ''Did you know? {insight_content} '' @ [CHR 0xE2, CHR 0x9C, CHR 0xA8] @ '' That's why we're always evolving at {business_name}! {call_to_action}'',
           ''Cool industry update: {insight_content} '' @ [CHR 0xF0, CHR 0x9F, CHR 0x98, CHR 0x8E] @ '' We're always learning for you at {business_name}!'']),
        (''casual'',
          [''FYI: {insight_content} '' @ [CHR 0xF0, CHR 0x9F, CHR 0x93, CHR 0xB0] @ '' That's why {business_name} stays fresh and relevant! {call_to_action}'',
           ''Industry tea: {insight_content} '' @ [CHR 0xE2, CHR 0x98, CHR 0x95] @ '' We keep our finger on the pulse at {business_name}!'',
           ''Real industry talk: {insight_content} '' @ [CHR 0xF0, CHR 0x9F, CHR 0x92, CHR 0xAF] @ '' {business_name} keeps it 100 with the latest!'']),
        (''premium'',
          [''Market intelligence: {insight_content} {business_name} leverages industry insights for your advantage.'',
           ''Exclusive industry analysis: {insight_content} Discover how {business_name} stays at the forefront.'',
           ''Strategic insight: {insight_content} {business_name} - where expertise meets innovation.''])])]"

definition industry_content_general :: industry_data where
  "industry_content_general =
    \<lparr>offers =
       [''New customer discount: 20% off first service'',
        ''Loyalty rewards program now available'',
        ''Refer a friend and save'',
        ''Seasonal promotion: Limited time only'',
        ''Bundle deals available''],
     tips =
       [''Quality service makes all the difference'',
        ''Building relationships is key to business success'',
        ''Customer satisfaction is our top priority'',
        ''Continuous improvement drives excellence'',
        ''Local businesses strengthen communities''],
     value_props =
       [''providing exceptional customer service'',
        ''delivering quality results every time'',
        ''supporting our local community'',
        ''building lasting relationships'',
        ''exceeding customer expectations''],
     hashtags =
       [''#business'',
        ''#service'',
        ''#quality'',
        ''#community'',
        ''#local'',
        ''#customerservice'']\<rparr>"

definition industry_content :: "(string \<times> industry_data) list" where
  "industry_content =
    [(''fitness'',
       \<lparr>offers =
          [''50% off personal training sessions this month'',
           ''Free fitness assessment with membership signup'',
           ''Buy 10 classes, get 2 free'',
           ''New member special: First month for $39'',
           ''Partner workout packages available''],
        tips =
          [''Stay hydrated - aim for 8 glasses of water daily'',
           ''Warm up before workouts to prevent injury'',
           ''Rest days are just as important as workout days'',
           ''Focus on form over speed for better results'',
           ''Set realistic goals and celebrate small wins''],
        value_props =
          [''helping you achieve your fitness goals'',
           ''creating a supportive fitness community'',
           ''providing expert guidance and motivation'',
           ''offering flexible workout options'',
           ''building healthy lifestyle habits''],
        hashtags =
          [''#fitness'',
           ''#gym'',
           ''#workout'',
           ''#health'',
           ''#motivation'',
           ''#personaltraining'',
           ''#fitnesscommunity'']\<rparr>),
     (''beauty'',
       \<lparr>offers =
          [''20% off all facial treatments this week'',
           ''Bridal package deal - hair, makeup, and nails'',
           ''Refer a friend and both get 15% off'',
           ''New client special: $99 spa day package'',
           ''Loyalty program: 10th service free''],
        tips =
          [''Always remove makeup before bed'',
           ''Use SPF daily, even in winter'',
           ''Deep condition your hair weekly'',
           ''Exfoliate 2-3 times per week for glowing skin'',
           ''Schedule regular trims to keep hair healthy''],
        value_props =
          [''enhancing your natural beauty'',
           ''providing relaxing spa experiences'',
           ''using high-quality, safe products'',
           ''helping you feel confident and beautiful'',
           ''creating personalized beauty solutions''],
        hashtags =
          [''#beauty'',
           ''#spa'',
           ''#skincare'',
           ''#salon'',
           ''#selfcare'',
           ''#beautytips'',
           ''#glowup'']\<rparr>),
     (''food'',
       \<lparr>offers =
          [''Happy hour: 50% off appetizers 3-6pm'',
           ''Weekend brunch special: $15 bottomless mimosas'',
           ''Family dinner deal: Kids eat free Sundays'',
           ''Date night package: Dinner for two $49'',
           ''Catering 20% off for orders over $200''],
        tips =
          [''Try new flavors - expand your palate'',
           ''Fresh, local ingredients make all the difference'',
           ''Pair wines with complementary dishes'',
           ''Save room for dessert - life's too short'',
           ''Share dishes to try more variety''],
        value_props =
          [''serving fresh, locally-sourced ingredients'',
           ''creating memorable dining experiences'',
           ''bringing people together over great food'',
           ''supporting local farmers and suppliers'',
           ''crafting dishes with passion and care''],
        hashtags =
          [''#restaurant'',
           ''#food'',
           ''#dining'',
           ''#localfood'',
           ''#freshingredients'',
           ''#foodie'',
           ''#delicious'']\<rparr>),
     (''general'', industry_content_general)]"

definition cta_options :: "string list" where
  "cta_options =
    [''Book now!'',
     ''Call to schedule your appointment.'',
     ''Visit us today!'',
     ''DM us for more info.'',
     ''Link in bio to book online.'',
     ''Stop by or give us a call!'',
     ''Schedule online or call us.'',
     ''Don't wait - spaces are limited!'',
     ''Contact us to learn more.'',
     ''Book your spot today!'']"

section \<open>content_generator.py: the inputs\<close>

text \<open>
  The dictionaries handed to the generator, a field being \<open>None\<close> when the key is absent.
\<close>

record contact =
  phone :: "string option"

record business_profile =
  bp_business_name :: "string option"
  bp_industry :: "string option"
  bp_contact_info :: "contact option"

record post_preferences =
  pp_tone :: "string option"
  pp_frequency :: "int option"
  pp_post_types :: "string list option"

record news_item =
  headline :: "string option"
  source :: "string option"

section \<open>content_generator.py: hashtags, engagement and posting time\<close>

definition type_hashtags :: "(string \<times> string list) list" where
  "type_hashtags =
     [(''promo'', [''#deal'', ''#offer'', ''#special'', ''#save'']),
      (''tip'', [''#tips'', ''#advice'', ''#howto'', ''#expert'']),
      (''update'', [''#news'', ''#update'', ''#announcement'']),
      (''insight'', [''#trends'', ''#insights'', ''#industry'', ''#knowledge''])]"

definition general_hashtags :: "string list" where
  "general_hashtags = [''#local'', ''#smallbusiness'', ''#community'']"

definition generate_hashtags :: "string list \<Rightarrow> string \<Rightarrow> string list gen" where
  "generate_hashtags base_hashtags post_type =
     (let hashtags = base_hashtags @ dict_get type_hashtags post_type [] @ general_hashtags
      in sample hashtags (min 8 (length hashtags)))"

record base_score =
  likes :: int
  comments :: int
  shares :: int

definition base_scores :: "(string \<times> base_score) list" where
  "base_scores =
     [(''promo'', \<lparr>likes = 45, comments = 8, shares = 12\<rparr>),
      (''tip'', \<lparr>likes = 65, comments = 15, shares = 25\<rparr>),
      (''update'', \<lparr>likes = 35, comments = 6, shares = 8\<rparr>),
      (''insight'', \<lparr>likes = 55, comments = 12, shares = 20\<rparr>)]"

definition tone_multipliers :: "(string \<times> double) list" where
  "tone_multipliers =
     [(''friendly'', lit_1_2), (''casual'', lit_1_1), (''professional'', lit_1_0),
      (''premium'', lit_0_9)]"

definition estimate_engagement :: "string \<Rightarrow> string \<Rightarrow> (string \<times> pyval) list" where
  "estimate_engagement post_type tone =
     (let base = dict_get base_scores post_type \<lparr>likes = 50, comments = 10, shares = 15\<rparr>;
          multiplier = dict_get tone_multipliers tone lit_1_0
      in [(''estimated_likes'', PInt (int_of_float (float_mul (float_of_int (likes base)) multiplier))),
          (''estimated_comments'',
             PInt (int_of_float (float_mul (float_of_int (comments base)) multiplier))),
          (''estimated_shares'',
             PInt (int_of_float (float_mul (float_of_int (shares base)) multiplier))),
          (''engagement_score'',
             PStr (if float_gt multiplier lit_1_1 then ''high'' else ''medium''))])"

definition industry_times :: "(string \<times> (string \<times> string) list) list" where
  "industry_times =
     [(''fitness'', [(''morning'', ''6:00 AM''), (''evening'', ''6:00 PM'')]),
      (''beauty'', [(''afternoon'', ''2:00 PM''), (''evening'', ''7:00 PM'')]),
      (''food'', [(''lunch'', ''11:30 AM''), (''dinner'', ''5:30 PM'')]),
      (''general'', [(''morning'', ''9:00 AM''), (''afternoon'', ''3:00 PM'')])]"

definition post_type_times :: "(string \<times> string) list" where
  "post_type_times =
     [(''promo'', ''afternoon''), (''tip'', ''morning''), (''update'', ''morning''),
      (''insight'', ''afternoon'')]"

definition suggest_best_time :: "string \<Rightarrow> string \<Rightarrow> string" where
  "suggest_best_time industry post_type =
     (let industry_schedule =
            dict_get industry_times industry
              [(''morning'', ''9:00 AM''), (''afternoon'', ''3:00 PM'')];
          preferred_slot = dict_get post_type_times post_type ''afternoon''
      in dict_get industry_schedule preferred_slot ''12:00 PM'')"

section \<open>content_generator.py: the posts\<close>

definition updates :: "string list" where
  "updates =
     [''We've extended our hours for your convenience'',
      ''New services now available'',
      ''We're implementing new safety protocols'',
      ''Our team has completed additional training'',
      ''We've upgraded our facilities'']"

text \<open>The content variables that depend on the post type, chosen in the order of the source.\<close>

definition type_specific_vars :: "industry_data \<Rightarrow> string \<Rightarrow> (string \<times> string) list gen" where
  "type_specific_vars industry_data post_type =
     (if post_type = ''promo''
      then gen_bind (choice (offers industry_data)) (\<lambda>offer. gen_return [(''offer'', offer)])
      else if post_type = ''tip''
      then gen_bind (choice (tips industry_data)) (\<lambda>tip_content.
           gen_bind (choice [''succeed'', ''improve'', ''feel great'', ''achieve your goals''])
             (\<lambda>benefit. gen_return [(''tip_content'', tip_content), (''benefit'', benefit)]))
      else if post_type = ''update''
      then gen_bind (choice updates) (\<lambda>update_content.
             gen_return [(''update_content'', update_content)])
      else gen_return [])"

text \<open>The telephone sign of the contact line, U+1F4DE, in UTF-8.\<close>

definition telephone :: string where
  "telephone = [CHR 0xF0, CHR 0x9F, CHR 0x93, CHR 0x9E]"

definition contact_line :: "business_profile \<Rightarrow> string" where
  "contact_line business_profile =
     (case bp_contact_info business_profile of
        None \<Rightarrow> []
      | Some contact_info \<Rightarrow>
          (case phone contact_info of
             None \<Rightarrow> []
           | Some p \<Rightarrow> if p \<noteq> [] then telephone @ '' '' @ p else []))"

definition generate_standard_post :: "business_profile \<Rightarrow> string \<Rightarrow> string \<Rightarrow> post gen" where
  "generate_standard_post business_profile tone post_type =
     (let industry = (case bp_industry business_profile of Some i \<Rightarrow> i | None \<Rightarrow> ''general'');
          business_name =
            (case bp_business_name business_profile of Some n \<Rightarrow> n | None \<Rightarrow> ''Our Business'');
          industry_data = dict_get industry_content industry industry_content_general
      in case map_of post_templates post_type of
           None \<Rightarrow> gen_raise KeyError
         | Some by_tone \<Rightarrow>
        (case map_of by_tone tone of
           None \<Rightarrow> gen_raise KeyError
         | Some templates \<Rightarrow>
             gen_bind (choice templates) (\<lambda>template.
             gen_bind (choice cta_options) (\<lambda>call_to_action.
             gen_bind (choice (value_props industry_data)) (\<lambda>value_prop.
             gen_bind (type_specific_vars industry_data post_type) (\<lambda>specific.
               let content_vars =
                     [(''business_name'', business_name), (''call_to_action'', call_to_action),
                      (''value_prop'', value_prop)] @ specific
                     @ [(''contact_info'', contact_line business_profile)];
                   fallback =
                     ''Great news from '' @ business_name @ ''! ''
                     @ dict_get content_vars ''offer'' ''We have something special for you.''
                     @ '' '' @ call_to_action
               in gen_bind
                    (case format_template template content_vars of
                       Inr content \<Rightarrow> gen_return content
                     | Inl e \<Rightarrow> if e = KeyError then gen_return fallback else gen_raise e)
                    (\<lambda>content.
                  gen_bind (generate_hashtags (hashtags industry_data) post_type) (\<lambda>tags.
                    gen_return
                      [(''content'', PStr content),
                       (''hashtags'', PList (map PStr tags)),
                       (''post_type'', PStr post_type),
                       (''tone'', PStr tone),
                       (''industry'', PStr industry),
                       (''call_to_action'', PStr call_to_action),
                       (''estimated_engagement'', PDict (estimate_engagement post_type tone)),
                       (''best_time_to_post'', PStr (suggest_best_time industry post_type))]))))))))"

definition generate_insight_post :: "business_profile \<Rightarrow> string \<Rightarrow> news_item list \<Rightarrow> post gen" where
  "generate_insight_post business_profile tone industry_news =
     (if industry_news = [] then generate_standard_post business_profile tone ''tip''
      else
        let industry = (case bp_industry business_profile of Some i \<Rightarrow> i | None \<Rightarrow> ''general'');
            business_name =
              (case bp_business_name business_profile of Some n \<Rightarrow> n | None \<Rightarrow> ''Our Business'')
        in gen_bind (choice industry_news) (\<lambda>news_item.
           case map_of post_templates ''insight'' of
             None \<Rightarrow> gen_raise KeyError
           | Some by_tone \<Rightarrow>
          (case map_of by_tone tone of
             None \<Rightarrow> gen_raise KeyError
           | Some templates \<Rightarrow>
               gen_bind (choice templates) (\<lambda>template.
                 let insight_content =
                       (case headline news_item of
                          Some h \<Rightarrow> h
                        | None \<Rightarrow> ''Industry trends continue to evolve'')
                 in gen_bind (choice cta_options) (\<lambda>call_to_action.
                 let content_vars =
                       [(''business_name'', business_name), (''insight_content'', insight_content),
                        (''call_to_action'', call_to_action)];
                     fallback =
                       ''Industry update: '' @ insight_content @ '' Stay informed with ''
                       @ business_name @ ''! '' @ call_to_action;
                     industry_data = dict_get industry_content industry industry_content_general
                 in gen_bind
                      (case format_template template content_vars of
                         Inr content \<Rightarrow> gen_return content
                       | Inl e \<Rightarrow> if e = KeyError then gen_return fallback else gen_raise e)
                      (\<lambda>content.
                    gen_bind
                      (generate_hashtags
                         (hashtags industry_data @ [''#industrytrends'', ''#businessinsights''])
                         ''insight'')
                      (\<lambda>tags.
                      gen_return
                        [(''content'', PStr content),
                         (''hashtags'', PList (map PStr tags)),
                         (''post_type'', PStr ''insight''),
                         (''tone'', PStr tone),
                         (''industry'', PStr industry),
                         (''call_to_action'', PStr call_to_action),
                         (''news_source'',
                            PStr (case source news_item of Some s \<Rightarrow> s | None \<Rightarrow> ''Industry Reports'')),
                         (''estimated_engagement'', PDict (estimate_engagement ''insight'' tone)),
                         (''best_time_to_post'', PStr (suggest_best_time industry ''insight''))])))))))"

text \<open>\<open>_distribute_post_types\<close>: round robin over the preferred types.\<close>

definition distribute_post_types :: "int \<Rightarrow> string list \<Rightarrow> string list" where
  "distribute_post_types frequency preferred_types =
     (let preferred_types =
            (if preferred_types = [] then [''promo'', ''tip'', ''update''] else preferred_types)
      in map (\<lambda>i. preferred_types ! (i mod length preferred_types)) [0..<nat frequency])"

text \<open>
  The loop of \<open>generate_posts\<close>. A post is a non-empty dictionary, so the test \<open>if post\<close>
  of the source always succeeds and every post is appended.
\<close>

fun generate_loop ::
  "business_profile \<Rightarrow> string \<Rightarrow> news_item list option \<Rightarrow> string list \<Rightarrow> post list gen" where
  "generate_loop business_profile tone industry_news [] = gen_return []"
| "generate_loop business_profile tone industry_news (post_type # rest) =
     gen_bind
       (case industry_news of
          Some (item # items) \<Rightarrow>
            if post_type = ''insight''
            then generate_insight_post business_profile tone (item # items)
            else generate_standard_post business_profile tone post_type
        | _ \<Rightarrow> generate_standard_post business_profile tone post_type)
       (\<lambda>post. gen_bind (generate_loop business_profile tone industry_news rest)
          (\<lambda>posts. gen_return (post # posts)))"

definition generate_posts ::
  "business_profile \<Rightarrow> post_preferences \<Rightarrow> news_item list option \<Rightarrow> post list gen" where
  "generate_posts business_profile post_preferences industry_news =
     (let tone = (case pp_tone post_preferences of Some t \<Rightarrow> t | None \<Rightarrow> ''professional'');
          frequency = (case pp_frequency post_preferences of Some f \<Rightarrow> f | None \<Rightarrow> 3);
          preferred_types =
            (case pp_post_types post_preferences of
               Some ts \<Rightarrow> ts
             | None \<Rightarrow> [''promo'', ''tip'', ''update'', ''insight''])
      in generate_loop business_profile tone industry_news
           (distribute_post_types frequency preferred_types))"

text \<open>
  The tone multipliers as the specification states them, in tenths: friendly 1.2, casual 1.1,
  professional 1.0, premium 0.9, and 1.0 for any other tone.
\<close>

definition spec_tenths :: "string \<Rightarrow> int" where
  "spec_tenths tone =
     (if tone = ''friendly'' then 12 else if tone = ''casual'' then 11
      else if tone = ''professional'' then 10 else if tone = ''premium'' then 9 else 10)"

text \<open>The industry hashtag pool of a profile, as both post builders look it up.\<close>

definition profile_hashtags :: "business_profile \<Rightarrow> string list" where
  "profile_hashtags business_profile =
     hashtags (dict_get industry_content
       (case bp_industry business_profile of Some i \<Rightarrow> i | None \<Rightarrow> ''general'')
       industry_content_general)"

text \<open>
  The hashtags \<open>_generate_insight_post\<close> appends to the industry pool before it calls
  \<open>_generate_hashtags\<close>. \<open>generate_posts\<close> takes that path for the post type
  \<open>insight\<close> when \<open>industry_news\<close> is a non-empty list, and for no other post.
\<close>

definition insight_extras :: "news_item list option \<Rightarrow> string \<Rightarrow> string list" where
  "insight_extras industry_news post_type =
     (case industry_news of
        Some (item # items) \<Rightarrow>
          if post_type = ''insight'' then [''#industrytrends'', ''#businessinsights''] else []
      | _ \<Rightarrow> [])"

text \<open>\<open>post.get(key)\<close>\<close>

definition post_get :: "string \<Rightarrow> post \<Rightarrow> pyval" where
  "post_get key p = dict_get p key PNone"

section \<open>Properties of the classifier\<close>

lemma max_loop_first_max:
  "\<exists>pre post m. (best, bv) # kvs = pre @ (max_loop best bv kvs, m) # post
      \<and> (\<forall>(k, v) \<in> set pre. v < m) \<and> (\<forall>(k, v) \<in> set post. v \<le> m)"
proof (induction kvs arbitrary: best bv)
  case Nil
  show ?case by (rule exI[of _ "[]"], rule exI[of _ "[]"], rule exI[of _ bv]) simp
next
  case (Cons kv kvs)
  obtain k v where kv: "kv = (k, v)" by (cases kv)
  show ?case
  proof (cases "bv < v")
    case True
    from Cons.IH[of k v] obtain pre post m where
      d: "(k, v) # kvs = pre @ (max_loop k v kvs, m) # post"
      and lt: "\<forall>(k, v) \<in> set pre. v < m" and le: "\<forall>(k, v) \<in> set post. v \<le> m"
      by blast
    have "v \<le> m"
    proof (cases pre)
      case Nil with d show ?thesis by simp
    next
      case (Cons p ps) with d lt show ?thesis by auto
    qed
    with True have bm: "bv < m" by simp
    have ml: "max_loop best bv (kv # kvs) = max_loop k v kvs" using True kv by simp
    have "(best, bv) # kv # kvs = ((best, bv) # pre) @ (max_loop best bv (kv # kvs), m) # post"
      unfolding ml using d kv by simp
    moreover have "\<forall>(k, v) \<in> set ((best, bv) # pre). v < m" using lt bm by simp
    ultimately show ?thesis using le by blast
  next
    case False
    from Cons.IH[of best bv] obtain pre post m where
      d: "(best, bv) # kvs = pre @ (max_loop best bv kvs, m) # post"
      and lt: "\<forall>(k, v) \<in> set pre. v < m" and le: "\<forall>(k, v) \<in> set post. v \<le> m"
      by blast
    show ?thesis
    proof (cases pre)
      case Nil
      with d have e: "m = bv" "post = kvs" "max_loop best bv kvs = best" by auto
      have ml: "max_loop best bv (kv # kvs) = best" using False kv e by simp
      have "(best, bv) # kv # kvs = [] @ (max_loop best bv (kv # kvs), bv) # (kv # kvs)"
        unfolding ml by simp
      moreover have "\<forall>(k, v) \<in> set (kv # kvs). v \<le> bv" using le e False kv by auto
      moreover have "\<forall>(k, v) \<in> set ([] :: (_ \<times> nat) list). v < bv" by simp
      ultimately show ?thesis by blast
    next
      case (Cons p ps)
      with d have p: "p = (best, bv)" and kvs: "kvs = ps @ (max_loop best bv kvs, m) # post" by simp_all
      from Cons lt p have "bv < m" by auto
      with False have "v < m" by simp
      have ml: "max_loop best bv (kv # kvs) = max_loop best bv kvs" using False kv by simp
      have "(best, bv) # kv # kvs = ((best, bv) # kv # ps) @ (max_loop best bv (kv # kvs), m) # post"
        unfolding ml using kvs by simp
      moreover have "\<forall>(k, v) \<in> set ((best, bv) # kv # ps). v < m"
        using lt Cons p kv \<open>v < m\<close> by auto
      ultimately show ?thesis using le by blast
    qed
  qed
qed

lemma collect_scores_filter:
  "collect_scores table body = filter (\<lambda>(k, v). 0 < v) (scored table body)"
  by (induction table body rule: collect_scores.induct) (simp_all add: scored_def Let_def)

lemma filter_split:
  "filter P xs = pre' @ x # post' \<Longrightarrow>
   \<exists>pre post. xs = pre @ x # post \<and> filter P pre = pre' \<and> filter P post = post' \<and> P x"
proof (induction xs arbitrary: pre')
  case Nil
  then show ?case by simp
next
  case (Cons a xs)
  show ?case
  proof (cases "P a")
    case False
    with Cons.prems have "filter P xs = pre' @ x # post'" by simp
    from Cons.IH[OF this] obtain pre post where
      "xs = pre @ x # post" "filter P pre = pre'" "filter P post = post'" "P x" by blast
    with False have "a # xs = (a # pre) @ x # post \<and> filter P (a # pre) = pre'
        \<and> filter P post = post' \<and> P x" by simp
    then show ?thesis by blast
  next
    case True
    show ?thesis
    proof (cases pre')
      case Nil
      with True Cons.prems have "a = x" "filter P xs = post'" by simp_all
      with True have "a # xs = [] @ x # xs \<and> filter P [] = [] \<and> filter P xs = post' \<and> P x"
        by simp
      with Nil show ?thesis by blast
    next
      case (Cons p ps)
      with True Cons.prems have pa: "p = a" and f: "filter P xs = ps @ x # post'" by simp_all
      from Cons.IH[OF f] obtain pre post where
        "xs = pre @ x # post" "filter P pre = ps" "filter P post = post'" "P x" by blast
      with True pa Cons have "a # xs = (a # pre) @ x # post \<and> filter P (a # pre) = pre'
        \<and> filter P post = post' \<and> P x" by simp
      then show ?thesis by blast
    qed
  qed
qed

lemma scored_fst: "(b, v) \<in> set (scored table body) \<Longrightarrow> b \<in> fst ` set table"
  unfolding scored_def by force

lemma scored_lookup:
  "distinct (map fst table) \<Longrightarrow> (b, v) \<in> set (scored table body) \<Longrightarrow> v = bucket_score table b body"
proof (induction table)
  case Nil
  then show ?case by (simp add: scored_def)
next
  case (Cons entry table)
  obtain a kws where entry: "entry = (a, kws)" by (cases entry)
  from Cons.prems(2) entry have "(b, v) = (a, keyword_score kws body) \<or> (b, v) \<in> set (scored table body)"
    by (simp add: scored_def)
  then show ?case
  proof
    assume "(b, v) = (a, keyword_score kws body)"
    then show ?thesis by (simp add: bucket_score_def entry)
  next
    assume m: "(b, v) \<in> set (scored table body)"
    from scored_fst[OF m] Cons.prems(1) entry have "b \<noteq> a" by auto
    then have "bucket_score (entry # table) b body = bucket_score table b body"
      by (simp add: bucket_score_def entry)
    moreover from Cons.prems(1) have "distinct (map fst table)" by simp
    ultimately show ?thesis using Cons.IH m by simp
  qed
qed

lemma first_max_generic:
  assumes nz: "collect_scores table body \<noteq> []" and dist: "distinct (map fst table)"
  defines "r \<equiv> (case collect_scores table body of (k, v) # rest \<Rightarrow> max_loop k v rest | [] \<Rightarrow> undefined)"
  shows "\<exists>pre post. map fst table = pre @ r # post
     \<and> (\<forall>b \<in> set pre. bucket_score table b body < bucket_score table r body)
     \<and> (\<forall>b \<in> set post. bucket_score table b body \<le> bucket_score table r body)"
proof -
  from nz obtain k v rest where c: "collect_scores table body = (k, v) # rest"
    by (cases "collect_scores table body") auto
  then have r: "r = max_loop k v rest" by (simp add: r_def)
  from max_loop_first_max[of k v rest] c r obtain pre' post' m where
    d: "collect_scores table body = pre' @ (r, m) # post'"
    and lt: "\<forall>(k, v) \<in> set pre'. v < m" and le: "\<forall>(k, v) \<in> set post'. v \<le> m"
    by auto
  from d obtain pre post where
    s: "scored table body = pre @ (r, m) # post"
    and fpre: "filter (\<lambda>(k, v). 0 < v) pre = pre'"
    and fpost: "filter (\<lambda>(k, v). 0 < v) post = post'" and pos: "0 < m"
    using filter_split[OF d[unfolded collect_scores_filter]] by auto
  have fst_scored: "map fst (scored table body) = map fst table"
    by (simp add: scored_def case_prod_beta comp_def)
  have m: "m = bucket_score table r body"
    using scored_lookup[OF dist, of r m body] s by simp
  have pre_lt: "w < m" if "(b, w) \<in> set pre" for b w
  proof (cases "0 < w")
    case True
    with that fpre have "(b, w) \<in> set pre'" by auto
    with lt show ?thesis by auto
  next
    case False with pos show ?thesis by simp
  qed
  have post_le: "w \<le> m" if "(b, w) \<in> set post" for b w
  proof (cases "0 < w")
    case True
    with that fpost have "(b, w) \<in> set post'" by auto
    with le show ?thesis by auto
  next
    case False then show ?thesis by simp
  qed
  have "map fst table = map fst pre @ r # map fst post"
  proof -
    have "map fst table = map fst (pre @ (r, m) # post)" using s fst_scored by simp
    then show ?thesis by simp
  qed
  moreover have "\<forall>b \<in> set (map fst pre). bucket_score table b body < bucket_score table r body"
  proof
    fix b assume "b \<in> set (map fst pre)"
    then obtain w where bw: "(b, w) \<in> set pre" by auto
    with s have "(b, w) \<in> set (scored table body)" by simp
    from scored_lookup[OF dist this] pre_lt[OF bw] m show "bucket_score table b body < bucket_score table r body" by simp
  qed
  moreover have "\<forall>b \<in> set (map fst post). bucket_score table b body \<le> bucket_score table r body"
  proof
    fix b assume "b \<in> set (map fst post)"
    then obtain w where bw: "(b, w) \<in> set post" by auto
    with s have "(b, w) \<in> set (scored table body)" by simp
    from scored_lookup[OF dist this] post_le[OF bw] m show "bucket_score table b body \<le> bucket_score table r body" by simp
  qed
  ultimately show ?thesis by blast
qed

lemma scored_member:
  "(b, kws) \<in> set table \<Longrightarrow> (b, keyword_score kws body) \<in> set (scored table body)"
  by (force simp: scored_def)

lemma collect_scores_empty:
  "\<forall>kw \<in> set (concat (map snd table)). \<not> sublist kw body \<Longrightarrow> collect_scores table body = []"
proof (induction table)
  case Nil
  show ?case by simp
next
  case (Cons entry table)
  obtain b kws where entry: "entry = (b, kws)" by (cases entry)
  from Cons.prems entry have "filter (\<lambda>keyword. sublist keyword body) kws = []"
    by (simp add: filter_empty_conv)
  then have "keyword_score kws body = 0" by (simp add: keyword_score_def)
  moreover from Cons.prems have "\<forall>kw \<in> set (concat (map snd table)). \<not> sublist kw body" by simp
  ultimately show ?case using Cons.IH entry by simp
qed

lemma winner_in_table:
  assumes "distinct (map fst table)" and "collect_scores table body = (k, v) # rest"
  shows "max_loop k v rest \<in> set (map fst table)"
proof -
  from assms(2) have "collect_scores table body \<noteq> []" by simp
  from first_max_generic[OF this assms(1)] assms(2) obtain pre post where
    "map fst table = pre @ max_loop k v rest # post" by auto
  then show ?thesis by (metis in_set_conv_decomp)
qed

lemma industry_names: "map fst industry_keywords =
  [''fitness'', ''beauty'', ''food'', ''retail'', ''healthcare'', ''education'', ''professional'',
   ''automotive'', ''entertainment'']"
  by (simp add: industry_keywords_def)

lemma tone_names: "map fst tone_indicators = [''professional'', ''friendly'', ''casual'', ''premium'']"
  by (simp add: tone_indicators_def)

lemma industry_distinct: "distinct (map fst industry_keywords)"
  unfolding industry_names by simp

lemma tone_distinct: "distinct (map fst tone_indicators)"
  unfolding tone_names by simp

text \<open>
  Claim C3. The classifier has no failing branch: for every text and service list the
  industry is one of the nine buckets or \<open>general\<close>, the tone is one of the four
  tones, and when no keyword of any industry or tone bucket occurs as a substring of the
  classified text the result is \<open>general\<close> and \<open>professional\<close>.
\<close>

theorem classifier_total:
  "classify_industry unicode_lower text services \<in> set [''fitness'', ''beauty'', ''food'', ''retail'',
       ''healthcare'', ''education'', ''professional'', ''automotive'', ''entertainment'', ''general'']
   \<and> analyze_tone text \<in> set [''professional'', ''friendly'', ''casual'', ''premium'']
   \<and> ((\<forall>kw \<in> set (concat (map snd industry_keywords)) \<union> set (concat (map snd tone_indicators)).
          \<not> sublist kw (all_text unicode_lower text services))
        \<longrightarrow> classify_industry unicode_lower text services = ''general'' \<and> analyze_tone text = ''professional'')"
proof (intro conjI impI)
  show "classify_industry unicode_lower text services \<in> set [''fitness'', ''beauty'', ''food'', ''retail'',
       ''healthcare'', ''education'', ''professional'', ''automotive'', ''entertainment'', ''general'']"
  proof (cases "collect_scores industry_keywords (all_text unicode_lower text services)")
    case Nil
    then show ?thesis by (simp add: classify_industry_def)
  next
    case (Cons kv rest)
    obtain k v where kv: "kv = (k, v)" by (cases kv)
    from winner_in_table[OF industry_distinct Cons[unfolded kv]]
    have "max_loop k v rest \<in> set (map fst industry_keywords)" .
    then have "classify_industry unicode_lower text services \<in> set (map fst industry_keywords)"
      by (simp add: classify_industry_def Cons kv)
    then show ?thesis unfolding industry_names by auto
  qed
next
  show "analyze_tone text \<in> set [''professional'', ''friendly'', ''casual'', ''premium'']"
  proof (cases "collect_scores tone_indicators text")
    case Nil
    then show ?thesis by (simp add: analyze_tone_def)
  next
    case (Cons kv rest)
    obtain k v where kv: "kv = (k, v)" by (cases kv)
    from winner_in_table[OF tone_distinct Cons[unfolded kv]]
    have "max_loop k v rest \<in> set (map fst tone_indicators)" .
    then have "analyze_tone text \<in> set (map fst tone_indicators)"
      by (simp add: analyze_tone_def Cons kv)
    then show ?thesis unfolding tone_names by auto
  qed
next
  assume none: "\<forall>kw \<in> set (concat (map snd industry_keywords)) \<union> set (concat (map snd tone_indicators)).
          \<not> sublist kw (all_text unicode_lower text services)"
  then have "\<forall>kw \<in> set (concat (map snd industry_keywords)). \<not> sublist kw (all_text unicode_lower text services)"
    by blast
  from collect_scores_empty[OF this]
  show "classify_industry unicode_lower text services = ''general''" by (simp add: classify_industry_def)
next
  assume none: "\<forall>kw \<in> set (concat (map snd industry_keywords)) \<union> set (concat (map snd tone_indicators)).
          \<not> sublist kw (all_text unicode_lower text services)"
  have "\<not> sublist kw text" if "kw \<in> set (concat (map snd tone_indicators))" for kw
  proof
    assume "sublist kw text"
    then have "sublist kw (all_text unicode_lower text services)"
      unfolding all_text_def by (simp add: sublist_append)
    with none that show False by blast
  qed
  then have "\<forall>kw \<in> set (concat (map snd tone_indicators)). \<not> sublist kw text" by blast
  from collect_scores_empty[OF this]
  show "analyze_tone text = ''professional''" by (simp add: analyze_tone_def)
qed

theorem classifier_total_witness:
  "classify_industry (\<lambda>s. s) ''hello'' [] = ''general'' \<and> analyze_tone ''hello'' = ''professional''"
proof -
  have "\<forall>kw \<in> set (concat (map snd industry_keywords)) \<union> set (concat (map snd tone_indicators)).
          \<not> sublist kw (all_text (\<lambda>s. s) ''hello'' [])"
    by (simp add: industry_keywords_def tone_indicators_def all_text_def lower_def is_ascii_def sublist_code)
  with classifier_total[of "\<lambda>s. s" "''hello''" "[]"] show ?thesis by blast
qed


lemma collect_scores_Nil_score:
  assumes "collect_scores table body = []" and "distinct (map fst table)" and "b \<in> set (map fst table)"
  shows "bucket_score table b body = 0"
proof -
  from assms(3) obtain kws where "(b, kws) \<in> set table" by auto
  then have m: "(b, keyword_score kws body) \<in> set (scored table body)" by (rule scored_member)
  from assms(1) have "\<forall>(k, v) \<in> set (scored table body). \<not> 0 < v"
    unfolding collect_scores_filter filter_empty_conv by auto
  with m have "keyword_score kws body = 0" by auto
  with scored_lookup[OF assms(2) m] show ?thesis by simp
qed

text \<open>
  Claim C2, amended. When at least one bucket has a positive score, the industry returned
  is a bucket of the fixed order whose score no bucket exceeds, and every bucket before it
  in the order has a strictly smaller score: the maximum, ties going to the earliest.
\<close>

theorem classify_industry_first_max:
  assumes "\<exists>b \<in> set [''fitness'', ''beauty'', ''food'', ''retail'', ''healthcare'', ''education'',
      ''professional'', ''automotive'', ''entertainment''].
      0 < bucket_score industry_keywords b (all_text unicode_lower text services)"
  shows "\<exists>pre post.
      [''fitness'', ''beauty'', ''food'', ''retail'', ''healthcare'', ''education'',
       ''professional'', ''automotive'', ''entertainment''] = pre @ classify_industry unicode_lower text services # post
    \<and> (\<forall>b \<in> set pre. bucket_score industry_keywords b (all_text unicode_lower text services)
            < bucket_score industry_keywords (classify_industry unicode_lower text services) (all_text unicode_lower text services))
    \<and> (\<forall>b \<in> set post. bucket_score industry_keywords b (all_text unicode_lower text services)
            \<le> bucket_score industry_keywords (classify_industry unicode_lower text services) (all_text unicode_lower text services))"
proof -
  from assms obtain b where b: "b \<in> set (map fst industry_keywords)"
    and pos: "0 < bucket_score industry_keywords b (all_text unicode_lower text services)"
    unfolding industry_names by blast
  have ne: "collect_scores industry_keywords (all_text unicode_lower text services) \<noteq> []"
  proof
    assume "collect_scores industry_keywords (all_text unicode_lower text services) = []"
    from collect_scores_Nil_score[OF this industry_distinct b] pos show False by simp
  qed
  then obtain k v rest where c: "collect_scores industry_keywords (all_text unicode_lower text services) = (k, v) # rest"
    by (cases "collect_scores industry_keywords (all_text unicode_lower text services)") auto
  then have r: "classify_industry unicode_lower text services = max_loop k v rest"
    by (simp add: classify_industry_def)
  from first_max_generic[OF ne industry_distinct] show ?thesis
    unfolding r industry_names c by simp
qed

theorem classify_industry_first_max_witness:
  "\<exists>pre post.
      [''fitness'', ''beauty'', ''food'', ''retail'', ''healthcare'', ''education'',
       ''professional'', ''automotive'', ''entertainment'']
        = pre @ classify_industry (\<lambda>s. s) ''gym spa salon'' [] # post
    \<and> (\<forall>b \<in> set pre. bucket_score industry_keywords b (all_text (\<lambda>s. s) ''gym spa salon'' [])
            < bucket_score industry_keywords (classify_industry (\<lambda>s. s) ''gym spa salon'' []) (all_text (\<lambda>s. s) ''gym spa salon'' []))
    \<and> (\<forall>b \<in> set post. bucket_score industry_keywords b (all_text (\<lambda>s. s) ''gym spa salon'' [])
            \<le> bucket_score industry_keywords (classify_industry (\<lambda>s. s) ''gym spa salon'' []) (all_text (\<lambda>s. s) ''gym spa salon'' []))"
proof -
  have "0 < bucket_score industry_keywords ''fitness'' (all_text (\<lambda>s. s) ''gym spa salon'' [])"
    by (simp add: bucket_score_def industry_keywords_def keyword_score_def all_text_def lower_def is_ascii_def
        sublist_code)
  then have "\<exists>b \<in> set [''fitness'', ''beauty'', ''food'', ''retail'', ''healthcare'', ''education'',
      ''professional'', ''automotive'', ''entertainment''].
      0 < bucket_score industry_keywords b (all_text (\<lambda>s. s) ''gym spa salon'' [])"
    by simp
  from classify_industry_first_max[OF this] show ?thesis .
qed

text \<open>
  Claim C2 as stated covers every text. On the empty text all nine buckets tie at score
  zero, and the classifier returns \<open>general\<close>, which is not a bucket of the order at all.
\<close>

theorem classify_industry_no_match_counterexample:
  "classify_industry (\<lambda>s. s) [] [] = ''general''
   \<and> classify_industry (\<lambda>s. s) [] [] \<notin> set [''fitness'', ''beauty'', ''food'', ''retail'', ''healthcare'',
       ''education'', ''professional'', ''automotive'', ''entertainment'']"
proof -
  have g: "classify_industry (\<lambda>s. s) [] [] = ''general''"
    by (simp add: classify_industry_def industry_keywords_def keyword_score_def all_text_def lower_def is_ascii_def
        sublist_code)
  show ?thesis unfolding g by simp
qed

section \<open>Properties of the weekly scheduler\<close>

lemma enumerate_days:
  "enumerate days = [(0, ''monday''), (1, ''tuesday''), (2, ''wednesday''), (3, ''thursday''),
     (4, ''friday''), (5, ''saturday''), (6, ''sunday'')]"
  by (simp add: enumerate_def days_def upt_rec)

lemma schedule_shape:
  assumes "create_weekly_schedule unicode_strptime now posts frequency preferred_days start_date = Inr schedule"
  shows "\<exists>start d0 d1 d2 d3 d4 d5 d6.
     start_of unicode_strptime now start_date = Inr start
   \<and> plus_days start 0 = Inr d0 \<and> plus_days start 1 = Inr d1 \<and> plus_days start 2 = Inr d2
   \<and> plus_days start 3 = Inr d3 \<and> plus_days start 4 = Inr d4 \<and> plus_days start 5 = Inr d5
   \<and> plus_days start 6 = Inr d6
   \<and> schedule =
       [(''monday'', slot_entry d0 posts (posting_days_of frequency preferred_days) ''monday''),
        (''tuesday'', slot_entry d1 posts (posting_days_of frequency preferred_days) ''tuesday''),
        (''wednesday'', slot_entry d2 posts (posting_days_of frequency preferred_days) ''wednesday''),
        (''thursday'', slot_entry d3 posts (posting_days_of frequency preferred_days) ''thursday''),
        (''friday'', slot_entry d4 posts (posting_days_of frequency preferred_days) ''friday''),
        (''saturday'', slot_entry d5 posts (posting_days_of frequency preferred_days) ''saturday''),
        (''sunday'', slot_entry d6 posts (posting_days_of frequency preferred_days) ''sunday'')]"
  using assms unfolding create_weekly_schedule_def enumerate_days
  by (auto split: sum.splits)



lemma next_day_year_step:
  assumes "year d \<le> y \<or> (year d = Suc y \<and> month d = 1 \<and> mday d \<le> k)" and "k \<le> 27"
  shows "year (next_day d) \<le> y \<or> (year (next_day d) = Suc y \<and> month (next_day d) = 1 \<and> mday (next_day d) \<le> Suc k)"
  using assms by (auto simp: next_day_def days_in_month_def)

lemma funpow_year:
  assumes "year start \<le> y" and "i \<le> 28"
  shows "year ((next_day ^^ i) start) \<le> y
       \<or> (year ((next_day ^^ i) start) = Suc y \<and> month ((next_day ^^ i) start) = 1
           \<and> mday ((next_day ^^ i) start) \<le> i)"
  using assms(2)
proof (induction i)
  case 0
  with assms(1) show ?case by simp
next
  case (Suc i)
  then have "i \<le> 27" by simp
  with Suc.IH next_day_year_step[of "(next_day ^^ i) start" y i] show ?case by simp
qed

lemma plus_days_ok:
  assumes "year start < 9999" and "i \<le> 28"
  shows "plus_days start i = Inr ((next_day ^^ i) start)"
proof -
  from assms(1) have "year start \<le> 9998" by simp
  from funpow_year[OF this assms(2)] have "year ((next_day ^^ i) start) \<le> 9999" by auto
  then show ?thesis by (simp add: plus_days_def Let_def)
qed

lemma schedule_returns:
  assumes "start_of unicode_strptime now start_date = Inr start" and "year start < 9999"
  shows "\<exists>schedule. create_weekly_schedule unicode_strptime now posts frequency preferred_days start_date = Inr schedule"
  unfolding create_weekly_schedule_def enumerate_days
  using assms(1) plus_days_ok[OF assms(2), of 0] plus_days_ok[OF assms(2), of 1]
    plus_days_ok[OF assms(2), of 2] plus_days_ok[OF assms(2), of 3] plus_days_ok[OF assms(2), of 4]
    plus_days_ok[OF assms(2), of 5] plus_days_ok[OF assms(2), of 6]
  by simp


lemma start_2025_08_04:
  "start_of unicode_strptime now (Some ''2025-08-04'') = Inr \<lparr>year = 2025, month = 8, mday = 4\<rparr>"
  by (simp add: start_of_def strptime_def strptime_ascii_def is_ascii_def match_Y_def match_m_def match_d_def match_dash_def
      match_one_def is_digit_def digit_val_def days_in_month_def)

lemma funpow_unfold:
  "(f ^^ 2) x = f (f x)" "(f ^^ 3) x = f (f (f x))" "(f ^^ 4) x = f (f (f (f x)))"
  "(f ^^ 5) x = f (f (f (f (f x))))" "(f ^^ 6) x = f (f (f (f (f (f x)))))"
  by (simp_all add: eval_nat_numeral)

lemma week_2025_08_04:
  "plus_days \<lparr>year = 2025, month = 8, mday = 4\<rparr> 0 = Inr \<lparr>year = 2025, month = 8, mday = 4\<rparr>"
  "plus_days \<lparr>year = 2025, month = 8, mday = 4\<rparr> (Suc 0) = Inr \<lparr>year = 2025, month = 8, mday = 5\<rparr>"
  "plus_days \<lparr>year = 2025, month = 8, mday = 4\<rparr> 2 = Inr \<lparr>year = 2025, month = 8, mday = 6\<rparr>"
  "plus_days \<lparr>year = 2025, month = 8, mday = 4\<rparr> 3 = Inr \<lparr>year = 2025, month = 8, mday = 7\<rparr>"
  "plus_days \<lparr>year = 2025, month = 8, mday = 4\<rparr> 4 = Inr \<lparr>year = 2025, month = 8, mday = 8\<rparr>"
  "plus_days \<lparr>year = 2025, month = 8, mday = 4\<rparr> 5 = Inr \<lparr>year = 2025, month = 8, mday = 9\<rparr>"
  "plus_days \<lparr>year = 2025, month = 8, mday = 4\<rparr> 6 = Inr \<lparr>year = 2025, month = 8, mday = 10\<rparr>"
  by (simp_all add: plus_days_def funpow_unfold next_day_def days_in_month_def)

lemma zero_pad_2:
  "zero_pad 2 n = zero_pad 0 (n div 10 div 10) @ [digit_char (n div 10), digit_char n]"
  unfolding numeral_2_eq_2 by (simp add: zero_pad.simps(2))

lemma zero_pad_1: "zero_pad 1 n = zero_pad 0 (n div 10) @ [digit_char n]"
  using zero_pad.simps(2)[of 0 n] by simp

lemma week_strings:
  "strftime \<lparr>year = 2025, month = 8, mday = 4\<rparr> = ''2025-08-04''"
  "strftime \<lparr>year = 2025, month = 8, mday = 5\<rparr> = ''2025-08-05''"
  "strftime \<lparr>year = 2025, month = 8, mday = 6\<rparr> = ''2025-08-06''"
  "strftime \<lparr>year = 2025, month = 8, mday = 7\<rparr> = ''2025-08-07''"
  "strftime \<lparr>year = 2025, month = 8, mday = 8\<rparr> = ''2025-08-08''"
  "strftime \<lparr>year = 2025, month = 8, mday = 9\<rparr> = ''2025-08-09''"
  "strftime \<lparr>year = 2025, month = 8, mday = 10\<rparr> = ''2025-08-10''"
  by (simp_all add: strftime_def zero_pad_2 zero_pad.simps digit_char_def)

lemma day_titles:
  "title ''monday'' = ''Monday''" "title ''tuesday'' = ''Tuesday''"
  "title ''wednesday'' = ''Wednesday''" "title ''thursday'' = ''Thursday''"
  "title ''friday'' = ''Friday''" "title ''saturday'' = ''Saturday''"
  "title ''sunday'' = ''Sunday''"
  by (simp_all add: title_def is_alpha_def upper_char_def lower_char_def)


























lemma posting_days_mwf:
  "posting_days_of 3 (Some [''monday'', ''wednesday'', ''friday'']) = [''monday'', ''wednesday'', ''friday'']"
  "posting_days_of 3 (Some []) = [''monday'', ''wednesday'', ''friday'']"
  "posting_days_of 3 None = [''monday'', ''wednesday'', ''friday'']"
  by (simp_all add: posting_days_of_def default_days_def slice_to_def)

lemma mwf_slots:
  assumes "3 \<le> length posts"
  shows "slot_entry d posts [''monday'', ''wednesday'', ''friday''] ''monday''
      = \<lparr>date = strftime d, post = Some (posts ! 0),
          suggested_time = dict_get (posts ! 0) ''best_time_to_post'' (PStr ''12:00 PM''),
          day_of_week = title ''monday''\<rparr>"
    and "slot_entry d posts [''monday'', ''wednesday'', ''friday''] ''wednesday''
      = \<lparr>date = strftime d, post = Some (posts ! 1),
          suggested_time = dict_get (posts ! 1) ''best_time_to_post'' (PStr ''12:00 PM''),
          day_of_week = title ''wednesday''\<rparr>"
    and "slot_entry d posts [''monday'', ''wednesday'', ''friday''] ''friday''
      = \<lparr>date = strftime d, post = Some (posts ! 2),
          suggested_time = dict_get (posts ! 2) ''best_time_to_post'' (PStr ''12:00 PM''),
          day_of_week = title ''friday''\<rparr>"
    and "slot_entry d posts [''monday'', ''wednesday'', ''friday''] ''tuesday''
      = \<lparr>date = strftime d, post = None, suggested_time = PNone, day_of_week = title ''tuesday''\<rparr>"
    and "slot_entry d posts [''monday'', ''wednesday'', ''friday''] ''thursday''
      = \<lparr>date = strftime d, post = None, suggested_time = PNone, day_of_week = title ''thursday''\<rparr>"
    and "slot_entry d posts [''monday'', ''wednesday'', ''friday''] ''saturday''
      = \<lparr>date = strftime d, post = None, suggested_time = PNone, day_of_week = title ''saturday''\<rparr>"
    and "slot_entry d posts [''monday'', ''wednesday'', ''friday''] ''sunday''
      = \<lparr>date = strftime d, post = None, suggested_time = PNone, day_of_week = title ''sunday''\<rparr>"
proof -
  from assms have l: "0 < length posts" "Suc 0 < length posts" "Suc (Suc 0) < length posts"
    by linarith+
  have two: "posts ! Suc (Suc 0) = posts ! 2" by (simp add: numeral_2_eq_2)
  show "slot_entry d posts [''monday'', ''wednesday'', ''friday''] ''monday''
      = \<lparr>date = strftime d, post = Some (posts ! 0),
          suggested_time = dict_get (posts ! 0) ''best_time_to_post'' (PStr ''12:00 PM''),
          day_of_week = title ''monday''\<rparr>"
    using l by (simp add: slot_entry_def)
  show "slot_entry d posts [''monday'', ''wednesday'', ''friday''] ''wednesday''
      = \<lparr>date = strftime d, post = Some (posts ! 1),
          suggested_time = dict_get (posts ! 1) ''best_time_to_post'' (PStr ''12:00 PM''),
          day_of_week = title ''wednesday''\<rparr>"
    using l by (simp add: slot_entry_def)
  show "slot_entry d posts [''monday'', ''wednesday'', ''friday''] ''friday''
      = \<lparr>date = strftime d, post = Some (posts ! 2),
          suggested_time = dict_get (posts ! 2) ''best_time_to_post'' (PStr ''12:00 PM''),
          day_of_week = title ''friday''\<rparr>"
    using l unfolding two[symmetric] by (simp add: slot_entry_def)
qed (simp_all add: slot_entry_def)

text \<open>
  Claim C1. With frequency 3, the preferred days monday, wednesday and friday, the start date
  2025-08-04 and at least three posts, the scheduler returns the week of 2025-08-04: monday
  carries the first post, wednesday (2025-08-06) the second, friday (2025-08-08) the third,
  and tuesday, thursday, saturday and sunday carry none. An empty list of preferred days
  gives the same schedule.
\<close>

theorem weekly_schedule_scenario:
  assumes "3 \<le> length posts"
  shows "create_weekly_schedule unicode_strptime now posts 3 (Some [''monday'', ''wednesday'', ''friday''])
           (Some ''2025-08-04'')
    = Inr [(''monday'', \<lparr>date = ''2025-08-04'', post = Some (posts ! 0),
              suggested_time = dict_get (posts ! 0) ''best_time_to_post'' (PStr ''12:00 PM''),
              day_of_week = ''Monday''\<rparr>),
           (''tuesday'', \<lparr>date = ''2025-08-05'', post = None, suggested_time = PNone,
              day_of_week = ''Tuesday''\<rparr>),
           (''wednesday'', \<lparr>date = ''2025-08-06'', post = Some (posts ! 1),
              suggested_time = dict_get (posts ! 1) ''best_time_to_post'' (PStr ''12:00 PM''),
              day_of_week = ''Wednesday''\<rparr>),
           (''thursday'', \<lparr>date = ''2025-08-07'', post = None, suggested_time = PNone,
              day_of_week = ''Thursday''\<rparr>),
           (''friday'', \<lparr>date = ''2025-08-08'', post = Some (posts ! 2),
              suggested_time = dict_get (posts ! 2) ''best_time_to_post'' (PStr ''12:00 PM''),
              day_of_week = ''Friday''\<rparr>),
           (''saturday'', \<lparr>date = ''2025-08-09'', post = None, suggested_time = PNone,
              day_of_week = ''Saturday''\<rparr>),
           (''sunday'', \<lparr>date = ''2025-08-10'', post = None, suggested_time = PNone,
              day_of_week = ''Sunday''\<rparr>)]
   \<and> create_weekly_schedule unicode_strptime now posts 3 (Some []) (Some ''2025-08-04'')
     = create_weekly_schedule unicode_strptime now posts 3 (Some [''monday'', ''wednesday'', ''friday''])
         (Some ''2025-08-04'')"
  unfolding create_weekly_schedule_def enumerate_days posting_days_mwf start_2025_08_04
  by (simp add: week_2025_08_04 mwf_slots[OF assms] week_strings day_titles)

theorem weekly_schedule_scenario_witness:
  "map (\<lambda>(day, e). (day, date e, post e))
     (projr (create_weekly_schedule (\<lambda>s. Inl ValueError) \<lparr>year = 2026, month = 1, mday = 1\<rparr>
        [[(''id'', PInt 0)], [(''id'', PInt 1)], [(''id'', PInt 2)], [(''id'', PInt 3)]] 3
        (Some [''monday'', ''wednesday'', ''friday'']) (Some ''2025-08-04'')))
   = [(''monday'', ''2025-08-04'', Some [(''id'', PInt 0)]),
      (''tuesday'', ''2025-08-05'', None),
      (''wednesday'', ''2025-08-06'', Some [(''id'', PInt 1)]),
      (''thursday'', ''2025-08-07'', None),
      (''friday'', ''2025-08-08'', Some [(''id'', PInt 2)]),
      (''saturday'', ''2025-08-09'', None),
      (''sunday'', ''2025-08-10'', None)]"
proof -
  have "3 \<le> length [[(''id'', PInt 0)], [(''id'', PInt 1)], [(''id'', PInt 2)], [(''id'', PInt (3::int))]]"
    by simp
  from weekly_schedule_scenario[OF this, of "\<lambda>s. Inl ValueError" "\<lparr>year = 2026, month = 1, mday = 1\<rparr>"]
  show ?thesis by simp
qed

lemma list_index_Some:
  "list_index xs x = Some k \<Longrightarrow> k < length xs \<and> xs ! k = x \<and> (\<forall>i<k. xs ! i \<noteq> x)"
proof (induction xs arbitrary: k)
  case Nil
  then show ?case by simp
next
  case (Cons y ys)
  show ?case
  proof (cases "y = x")
    case True
    with Cons.prems show ?thesis by simp
  next
    case False
    with Cons.prems obtain k' where k': "list_index ys x = Some k'" "k = Suc k'" by auto
    from Cons.IH[OF k'(1)] have ih: "k' < length ys" "ys ! k' = x" "\<forall>i<k'. ys ! i \<noteq> x" by simp_all
    have "(y # ys) ! i \<noteq> x" if "i < k" for i
      using that k'(2) ih(3) False by (cases i) simp_all
    with ih k'(2) show ?thesis by simp
  qed
qed

lemma list_index_in_set: "list_index xs x = Some k \<Longrightarrow> x \<in> set xs"
  using list_index_Some[of xs x k] by (metis nth_mem)

lemma slot_post:
  "post (slot_entry d posts posting_days day) =
     (case list_index posting_days day of
        Some k \<Rightarrow> if k < length posts then Some (posts ! k) else None
      | None \<Rightarrow> None)"
  by (simp add: slot_entry_def split: option.splits)

lemma schedule_entries:
  assumes "create_weekly_schedule unicode_strptime now posts frequency preferred_days start_date = Inr schedule"
    and "(day, e) \<in> set schedule"
  shows "\<exists>d. e = slot_entry d posts (posting_days_of frequency preferred_days) day"
  using schedule_shape[OF assms(1)] assms(2) by auto

lemma filled_days_distinct:
  assumes "create_weekly_schedule unicode_strptime now posts frequency preferred_days start_date = Inr schedule"
  shows "distinct (filled_days schedule)"
proof -
  from schedule_shape[OF assms] have "map fst schedule = [''monday'', ''tuesday'', ''wednesday'',
      ''thursday'', ''friday'', ''saturday'', ''sunday'']" by auto
  then have "distinct (map fst schedule)" by simp
  then show ?thesis unfolding filled_days_def by (rule distinct_map_filter)
qed

lemma filled_days_index:
  assumes "create_weekly_schedule unicode_strptime now posts frequency preferred_days start_date = Inr schedule"
    and "day \<in> set (filled_days schedule)"
  shows "\<exists>k. list_index (posting_days_of frequency preferred_days) day = Some k \<and> k < length posts"
proof -
  from assms(2) obtain e where e: "(day, e) \<in> set schedule" "post e \<noteq> None"
    unfolding filled_days_def by auto
  from schedule_entries[OF assms(1) e(1)] obtain d where
    "e = slot_entry d posts (posting_days_of frequency preferred_days) day" by blast
  with e(2) show ?thesis by (auto simp: slot_post split: option.splits if_splits)
qed

lemma filled_days_bound:
  assumes "create_weekly_schedule unicode_strptime now posts frequency preferred_days start_date = Inr schedule"
  shows "length (filled_days schedule) \<le> length posts"
proof -
  let ?pd = "posting_days_of frequency preferred_days"
  let ?f = "\<lambda>day. the (list_index ?pd day)"
  have inj: "inj_on ?f (set (filled_days schedule))"
  proof (rule inj_onI)
    fix a b
    assume a: "a \<in> set (filled_days schedule)" and b: "b \<in> set (filled_days schedule)"
      and eq: "?f a = ?f b"
    from filled_days_index[OF assms a] obtain k where k: "list_index ?pd a = Some k" by blast
    from filled_days_index[OF assms b] obtain l where l: "list_index ?pd b = Some l" by blast
    from eq k l have "k = l" by simp
    with list_index_Some[OF k] list_index_Some[OF l] show "a = b" by simp
  qed
  have "?f ` set (filled_days schedule) \<subseteq> {..<length posts}"
    using filled_days_index[OF assms] by force
  then have "card (?f ` set (filled_days schedule)) \<le> card {..<length posts}"
    by (intro card_mono) simp_all
  with inj have "card (set (filled_days schedule)) \<le> length posts"
    by (simp add: card_image)
  with filled_days_distinct[OF assms] show ?thesis by (simp add: distinct_card)
qed

lemma list_index_take:
  "(\<exists>k. list_index xs x = Some k \<and> k < n) \<longleftrightarrow> x \<in> set (take n xs)"
proof (induction xs arbitrary: n)
  case Nil
  show ?case by simp
next
  case (Cons y ys)
  show ?case
  proof (cases n)
    case 0
    then show ?thesis by simp
  next
    case (Suc n')
    show ?thesis
    proof (cases "y = x")
      case True
      with Suc show ?thesis by simp
    next
      case False
      have "(\<exists>k. list_index (y # ys) x = Some k \<and> k < n)
          \<longleftrightarrow> (\<exists>k'. list_index ys x = Some k' \<and> k' < n')"
        using False Suc by auto
      with Cons.IH[of n'] False Suc show ?thesis by simp
    qed
  qed
qed

lemma slot_filled_iff:
  "post (slot_entry d posts posting_days day) \<noteq> None
     \<longleftrightarrow> day \<in> set (take (length posts) posting_days)"
  unfolding list_index_take[symmetric] by (auto simp: slot_post split: option.splits)

lemma filled_days_exact:
  assumes "create_weekly_schedule unicode_strptime now posts frequency preferred_days start_date
    = Inr schedule"
  shows "filled_days schedule
    = filter (\<lambda>day. day \<in> set (take (length posts) (posting_days_of frequency preferred_days))) days"
proof -
  from schedule_shape[OF assms] obtain d0 d1 d2 d3 d4 d5 d6 where
    s: "schedule =
       [(''monday'', slot_entry d0 posts (posting_days_of frequency preferred_days) ''monday''),
        (''tuesday'', slot_entry d1 posts (posting_days_of frequency preferred_days) ''tuesday''),
        (''wednesday'', slot_entry d2 posts (posting_days_of frequency preferred_days) ''wednesday''),
        (''thursday'', slot_entry d3 posts (posting_days_of frequency preferred_days) ''thursday''),
        (''friday'', slot_entry d4 posts (posting_days_of frequency preferred_days) ''friday''),
        (''saturday'', slot_entry d5 posts (posting_days_of frequency preferred_days) ''saturday''),
        (''sunday'', slot_entry d6 posts (posting_days_of frequency preferred_days) ''sunday'')]"
    by blast
  have f: "(\<exists>y. post (slot_entry d posts (posting_days_of frequency preferred_days) day) = Some y)
      \<longleftrightarrow> day \<in> set (take (length posts) (posting_days_of frequency preferred_days))"
    "post (slot_entry d posts (posting_days_of frequency preferred_days) day) = None
      \<longleftrightarrow> day \<notin> set (take (length posts) (posting_days_of frequency preferred_days))"
    for d day
    using slot_filled_iff[of d posts "posting_days_of frequency preferred_days" day] by auto
  show ?thesis unfolding s filled_days_def days_def by (simp add: f)
qed

text \<open>
  Claim C8, amended. The scheduler has no validation of its own. Called with a frequency
  greater than the number of posts and a start date it can read (before the year 9999), it
  returns a schedule; the filled days are exactly the days named among the first
  \<open>length posts\<close> posting days, so at most as many days are filled as there are posts, and
  fewer than the frequency.
\<close>

theorem scheduler_underfills:
  assumes "int (length posts) < frequency"
    and "start_of unicode_strptime now start_date = Inr start" and "year start < 9999"
  shows "\<exists>schedule. create_weekly_schedule unicode_strptime now posts frequency preferred_days
        start_date = Inr schedule
      \<and> filled_days schedule
          = filter (\<lambda>day. day \<in> set (take (length posts) (posting_days_of frequency preferred_days)))
              days
      \<and> length (filled_days schedule) \<le> length posts
      \<and> int (length (filled_days schedule)) < frequency"
proof -
  from schedule_returns[OF assms(2,3)] obtain schedule where
    s: "create_weekly_schedule unicode_strptime now posts frequency preferred_days start_date
      = Inr schedule" by blast
  from filled_days_bound[OF s] assms(1) have "int (length (filled_days schedule)) < frequency" by simp
  with s filled_days_bound[OF s] filled_days_exact[OF s] show ?thesis by blast
qed

lemma empty_slots:
  "slot_entry d [] posting_days day
     = \<lparr>date = strftime d, post = None, suggested_time = PNone, day_of_week = title day\<rparr>"
  by (simp add: slot_entry_def split: option.splits)

text \<open>
  Claim C8 as stated asks for a failure. With no post at all and frequency 1 the scheduler
  returns a week of seven empty slots.
\<close>

theorem scheduler_no_validation_error_counterexample:
  "create_weekly_schedule (\<lambda>s. Inl ValueError) \<lparr>year = 2026, month = 1, mday = 1\<rparr> [] 1 None (Some ''2025-08-04'')
    = Inr [(''monday'', \<lparr>date = ''2025-08-04'', post = None, suggested_time = PNone,
              day_of_week = ''Monday''\<rparr>),
           (''tuesday'', \<lparr>date = ''2025-08-05'', post = None, suggested_time = PNone,
              day_of_week = ''Tuesday''\<rparr>),
           (''wednesday'', \<lparr>date = ''2025-08-06'', post = None, suggested_time = PNone,
              day_of_week = ''Wednesday''\<rparr>),
           (''thursday'', \<lparr>date = ''2025-08-07'', post = None, suggested_time = PNone,
              day_of_week = ''Thursday''\<rparr>),
           (''friday'', \<lparr>date = ''2025-08-08'', post = None, suggested_time = PNone,
              day_of_week = ''Friday''\<rparr>),
           (''saturday'', \<lparr>date = ''2025-08-09'', post = None, suggested_time = PNone,
              day_of_week = ''Saturday''\<rparr>),
           (''sunday'', \<lparr>date = ''2025-08-10'', post = None, suggested_time = PNone,
              day_of_week = ''Sunday''\<rparr>)]"
  unfolding create_weekly_schedule_def enumerate_days start_2025_08_04
  by (simp add: week_2025_08_04 empty_slots week_strings day_titles)

theorem scheduler_underfills_witness:
  "\<exists>schedule. create_weekly_schedule (\<lambda>s. Inl ValueError) \<lparr>year = 2026, month = 1, mday = 1\<rparr>
        [[(''id'', PInt 0)]] 3 (Some [''sunday'', ''monday'', ''tuesday'']) (Some ''2025-08-04'')
        = Inr schedule
      \<and> filled_days schedule = [''sunday'']
      \<and> length (filled_days schedule) \<le> length [[(''id'', PInt 0)]]
      \<and> int (length (filled_days schedule)) < 3"
proof -
  have "int (length [[(''id'', PInt 0)]]) < 3" by simp
  moreover have "year \<lparr>year = 2025, month = 8, mday = 4\<rparr> < 9999" by simp
  moreover have pd: "posting_days_of 3 (Some [''sunday'', ''monday'', ''tuesday''])
      = [''sunday'', ''monday'', ''tuesday'']"
    by (simp add: posting_days_of_def slice_to_def)
  have "filter (\<lambda>day. day \<in> set (take (length [[(''id'', PInt 0)]])
          (posting_days_of 3 (Some [''sunday'', ''monday'', ''tuesday''])))) days = [''sunday'']"
    unfolding pd by (simp add: days_def)
  ultimately show ?thesis
    using scheduler_underfills[of "[[(''id'', PInt 0)]]" 3 "\<lambda>s. Inl ValueError"
        "\<lparr>year = 2026, month = 1, mday = 1\<rparr>" "Some ''2025-08-04''"
        "\<lparr>year = 2025, month = 8, mday = 4\<rparr>" "Some [''sunday'', ''monday'', ''tuesday'']"]
      start_2025_08_04[of "\<lambda>s. Inl ValueError" "\<lparr>year = 2026, month = 1, mday = 1\<rparr>"]
    by auto
qed

lemma posting_days_prefix:
  assumes "\<not> distinct (take (nat frequency) ds)"
  shows "\<exists>ext. posting_days_of frequency (Some ds) = take (nat frequency) ds @ ext
      \<and> int (length (take (nat frequency) ds @ ext)) \<le> frequency"
proof -
  from assms have ne: "take (nat frequency) ds \<noteq> []" by auto
  then have ds: "ds \<noteq> []" and f: "0 < frequency" by (auto simp: take_eq_Nil)
  from ds obtain a as where a: "ds = a # as" by (cases ds) auto
  let ?p = "take (nat frequency) ds"
  show ?thesis
  proof (cases "int (length ?p) < frequency")
    case True
    let ?ext = "slice_to (filter (\<lambda>day. day \<notin> set ?p) days) (frequency - int (length ?p))"
    from True f have "posting_days_of frequency (Some ds) = ?p @ ?ext"
      by (simp add: posting_days_of_def slice_to_def a Let_def)
    moreover have "int (length ?ext) \<le> frequency - int (length ?p)"
    proof -
      from True have nn: "0 \<le> frequency - int (length ?p)" by simp
      then have "?ext = take (nat (frequency - int (length ?p))) (filter (\<lambda>day. day \<notin> set ?p) days)"
        unfolding slice_to_def by (rule if_P)
      then have "length ?ext \<le> nat (frequency - int (length ?p))"
        by (metis length_take min.cobounded2)
      with nn show ?thesis by linarith
    qed
    ultimately have "posting_days_of frequency (Some ds) = ?p @ ?ext
        \<and> int (length (?p @ ?ext)) \<le> frequency" by (simp del: length_take)
    then show ?thesis by blast
  next
    case False
    with f have "posting_days_of frequency (Some ds) = ?p @ []"
      by (simp add: posting_days_of_def slice_to_def a Let_def)
    moreover from f have "int (length (?p @ [])) \<le> frequency" by simp
    ultimately show ?thesis by blast
  qed
qed

lemma filled_days_card:
  assumes "create_weekly_schedule unicode_strptime now posts frequency preferred_days start_date = Inr schedule"
  shows "length (filled_days schedule) \<le> card (set (posting_days_of frequency preferred_days))"
proof -
  have "set (filled_days schedule) \<subseteq> set (posting_days_of frequency preferred_days)"
  proof
    fix day assume "day \<in> set (filled_days schedule)"
    from filled_days_index[OF assms this] obtain k where
      "list_index (posting_days_of frequency preferred_days) day = Some k" by blast
    then show "day \<in> set (posting_days_of frequency preferred_days)" by (rule list_index_in_set)
  qed
  then have "card (set (filled_days schedule)) \<le> card (set (posting_days_of frequency preferred_days))"
    by (intro card_mono) simp_all
  with filled_days_distinct[OF assms] show ?thesis by (simp add: distinct_card)
qed

text \<open>
  Claim C10. When a day name occurs more than once among the first \<open>frequency\<close> preferred
  days, every filled day takes the post at the first position of its name among the posting
  days, the returned schedule has fewer than \<open>frequency\<close> filled days, and a position that
  repeats an earlier day is never used as a post index: when the posts are pairwise distinct,
  the post at such a position is in no slot of the schedule.
\<close>

theorem duplicate_days_lose_posts:
  assumes dup: "\<not> distinct (take (nat frequency) ds)"
    and ret: "create_weekly_schedule unicode_strptime now posts frequency (Some ds) start_date = Inr schedule"
  shows "int (length (filled_days schedule)) < frequency
    \<and> (\<forall>(day, e) \<in> set schedule. post e \<noteq> None \<longrightarrow>
          (\<exists>k. list_index (posting_days_of frequency (Some ds)) day = Some k
             \<and> posting_days_of frequency (Some ds) ! k = day
             \<and> (\<forall>i<k. posting_days_of frequency (Some ds) ! i \<noteq> day)
             \<and> k < length posts \<and> post e = Some (posts ! k)))
    \<and> (\<forall>j. j < length (take (nat frequency) ds) \<and> (\<exists>i<j. ds ! i = ds ! j) \<longrightarrow>
          (\<forall>(day, e) \<in> set schedule. list_index (posting_days_of frequency (Some ds)) day \<noteq> Some j)
        \<and> (distinct posts \<and> j < length posts \<longrightarrow> Some (posts ! j) \<notin> set (map (\<lambda>(day, e). post e) schedule)))"
proof -
  let ?pd = "posting_days_of frequency (Some ds)"
  from posting_days_prefix[OF dup] obtain ext where
    pd: "?pd = take (nat frequency) ds @ ext" and len: "int (length (take (nat frequency) ds @ ext)) \<le> frequency"
    by blast
  from dup pd have "\<not> distinct ?pd" by simp
  then have "card (set ?pd) \<noteq> length ?pd" using card_distinct by blast
  with card_length[of ?pd] have "card (set ?pd) < length ?pd" by simp
  with filled_days_card[OF ret] len pd have one: "int (length (filled_days schedule)) < frequency"
    by simp
  have two: "\<exists>k. list_index ?pd day = Some k \<and> ?pd ! k = day \<and> (\<forall>i<k. ?pd ! i \<noteq> day)
      \<and> k < length posts \<and> post e = Some (posts ! k)"
    if "(day, e) \<in> set schedule" "post e \<noteq> None" for day e
  proof -
    from schedule_entries[OF ret that(1)] obtain d where e: "e = slot_entry d posts ?pd day" by blast
    with that(2) obtain k where k: "list_index ?pd day = Some k" "k < length posts"
      "post e = Some (posts ! k)"
      by (auto simp: slot_post split: option.splits if_splits)
    with list_index_Some[OF k(1)] show ?thesis by blast
  qed
  have three: "list_index ?pd day \<noteq> Some j"
    if "j < length (take (nat frequency) ds)" "i < j" "ds ! i = ds ! j" for i j day
  proof
    assume "list_index ?pd day = Some j"
    from list_index_Some[OF this] have "?pd ! j = day" "\<forall>i<j. ?pd ! i \<noteq> day" by simp_all
    moreover from that have "?pd ! j = ds ! j" "?pd ! i = ds ! i"
      unfolding pd by (simp_all add: nth_append)
    ultimately show False using that(2,3) by auto
  qed
  have four: "Some (posts ! j) \<notin> set (map (\<lambda>(day, e). post e) schedule)"
    if "j < length (take (nat frequency) ds)" "i < j" "ds ! i = ds ! j" "distinct posts" "j < length posts"
    for i j
  proof
    assume "Some (posts ! j) \<in> set (map (\<lambda>(day, e). post e) schedule)"
    then obtain day e where de: "(day, e) \<in> set schedule" "post e = Some (posts ! j)" by auto
    from two[OF de(1)] de(2) obtain k where k: "list_index ?pd day = Some k" "k < length posts"
      "posts ! k = posts ! j" by auto
    with that(4,5) have "k = j" by (simp add: nth_eq_iff_index_eq)
    with k(1) three[OF that(1,2,3)] show False by simp
  qed
  from one two three four show ?thesis by blast
qed

theorem duplicate_days_lose_posts_witness:
  "create_weekly_schedule (\<lambda>s. Inl ValueError) \<lparr>year = 2026, month = 1, mday = 1\<rparr> [[(''id'', PInt 0)], [(''id'', PInt 1)]] 2
      (Some [''monday'', ''monday'']) (Some ''2025-08-04'')
    = Inr [(''monday'', \<lparr>date = ''2025-08-04'', post = Some [(''id'', PInt 0)],
              suggested_time = PStr ''12:00 PM'', day_of_week = ''Monday''\<rparr>),
           (''tuesday'', \<lparr>date = ''2025-08-05'', post = None, suggested_time = PNone,
              day_of_week = ''Tuesday''\<rparr>),
           (''wednesday'', \<lparr>date = ''2025-08-06'', post = None, suggested_time = PNone,
              day_of_week = ''Wednesday''\<rparr>),
           (''thursday'', \<lparr>date = ''2025-08-07'', post = None, suggested_time = PNone,
              day_of_week = ''Thursday''\<rparr>),
           (''friday'', \<lparr>date = ''2025-08-08'', post = None, suggested_time = PNone,
              day_of_week = ''Friday''\<rparr>),
           (''saturday'', \<lparr>date = ''2025-08-09'', post = None, suggested_time = PNone,
              day_of_week = ''Saturday''\<rparr>),
           (''sunday'', \<lparr>date = ''2025-08-10'', post = None, suggested_time = PNone,
              day_of_week = ''Sunday''\<rparr>)]
   \<and> int (length (filled_days
         [(''monday'', \<lparr>date = ''2025-08-04'', post = Some [(''id'', PInt 0)],
              suggested_time = PStr ''12:00 PM'', day_of_week = ''Monday''\<rparr>),
           (''tuesday'', \<lparr>date = ''2025-08-05'', post = None, suggested_time = PNone,
              day_of_week = ''Tuesday''\<rparr>),
           (''wednesday'', \<lparr>date = ''2025-08-06'', post = None, suggested_time = PNone,
              day_of_week = ''Wednesday''\<rparr>),
           (''thursday'', \<lparr>date = ''2025-08-07'', post = None, suggested_time = PNone,
              day_of_week = ''Thursday''\<rparr>),
           (''friday'', \<lparr>date = ''2025-08-08'', post = None, suggested_time = PNone,
              day_of_week = ''Friday''\<rparr>),
           (''saturday'', \<lparr>date = ''2025-08-09'', post = None, suggested_time = PNone,
              day_of_week = ''Saturday''\<rparr>),
           (''sunday'', \<lparr>date = ''2025-08-10'', post = None, suggested_time = PNone,
              day_of_week = ''Sunday''\<rparr>)])) < 2"
proof -
  let ?S = "[(''monday'', \<lparr>date = ''2025-08-04'', post = Some [(''id'', PInt 0)],
              suggested_time = PStr ''12:00 PM'', day_of_week = ''Monday''\<rparr>),
           (''tuesday'', \<lparr>date = ''2025-08-05'', post = None, suggested_time = PNone,
              day_of_week = ''Tuesday''\<rparr>),
           (''wednesday'', \<lparr>date = ''2025-08-06'', post = None, suggested_time = PNone,
              day_of_week = ''Wednesday''\<rparr>),
           (''thursday'', \<lparr>date = ''2025-08-07'', post = None, suggested_time = PNone,
              day_of_week = ''Thursday''\<rparr>),
           (''friday'', \<lparr>date = ''2025-08-08'', post = None, suggested_time = PNone,
              day_of_week = ''Friday''\<rparr>),
           (''saturday'', \<lparr>date = ''2025-08-09'', post = None, suggested_time = PNone,
              day_of_week = ''Saturday''\<rparr>),
           (''sunday'', \<lparr>date = ''2025-08-10'', post = None, suggested_time = PNone,
              day_of_week = ''Sunday''\<rparr>)]"
  have pd: "posting_days_of 2 (Some [''monday'', ''monday'']) = [''monday'', ''monday'']"
    by (simp add: posting_days_of_def slice_to_def)
  have c: "create_weekly_schedule (\<lambda>s. Inl ValueError) \<lparr>year = 2026, month = 1, mday = 1\<rparr>
      [[(''id'', PInt 0)], [(''id'', PInt 1)]] 2 (Some [''monday'', ''monday'']) (Some ''2025-08-04'')
    = Inr ?S"
    unfolding create_weekly_schedule_def enumerate_days start_2025_08_04 pd
    by (simp add: week_2025_08_04 slot_entry_def dict_get_def week_strings day_titles)
  have dup: "\<not> distinct (take (nat 2) [''monday'', ''monday''])" by simp
  from duplicate_days_lose_posts[OF dup c] have "int (length (filled_days ?S)) < 2" by blast
  with c show ?thesis by blast
qed

section \<open>Properties of the content generator\<close>

text \<open>
  Claim C9, amended. The content pool has four entries: the industries fitness, beauty and
  food, and the fallback \<open>general\<close>. Each holds five offers, five tips and five value
  propositions; the three industries hold seven hashtags and \<open>general\<close> holds six.
\<close>

theorem content_pool_sizes:
  "map (\<lambda>(industry, d). (industry, length (offers d), length (tips d), length (value_props d),
          length (hashtags d))) industry_content
   = [(''fitness'', 5, 5, 5, 7), (''beauty'', 5, 5, 5, 7), (''food'', 5, 5, 5, 7),
      (''general'', 5, 5, 5, 6)]"
  by (simp add: industry_content_def industry_content_general_def)

text \<open>
  Claim C9 as stated: six entries, each with seven hashtags. The table has not six
  entries, and the \<open>general\<close> entry has not seven hashtags.
\<close>

theorem content_pool_counterexample:
  "length industry_content \<noteq> 5 + 1 \<and> length (hashtags industry_content_general) \<noteq> 7"
  by (simp add: industry_content_def industry_content_general_def)

lemmas float_eval = int_of_float_def float_mul_def float_of_int_def round_double_def
  round_even_def bit_length.simps Let_def

lemma mul_1_2:
  "\<forall>v \<in> set [45, 8, 12, 65, 15, 25, 35, 6, 55, 20, 50, 10].
     int_of_float (float_mul (float_of_int v) lit_1_2) = v * 12 div 10"
  by (simp add: float_eval lit_1_2_def)

lemma mul_1_1:
  "\<forall>v \<in> set [45, 8, 12, 65, 15, 25, 35, 6, 55, 20, 50, 10].
     int_of_float (float_mul (float_of_int v) lit_1_1) = v * 11 div 10"
  by (simp add: float_eval lit_1_1_def)

lemma mul_1_0:
  "\<forall>v \<in> set [45, 8, 12, 65, 15, 25, 35, 6, 55, 20, 50, 10].
     int_of_float (float_mul (float_of_int v) lit_1_0) = v * 10 div 10"
  by (simp add: float_eval lit_1_0_def)

lemma mul_0_9:
  "\<forall>v \<in> set [45, 8, 12, 65, 15, 25, 35, 6, 55, 20, 50, 10].
     int_of_float (float_mul (float_of_int v) lit_0_9) = v * 9 div 10"
  by (simp add: float_eval lit_0_9_def)

lemma gt_1_1:
  "float_gt lit_1_2 lit_1_1" "\<not> float_gt lit_1_1 lit_1_1" "\<not> float_gt lit_1_0 lit_1_1"
  "\<not> float_gt lit_0_9 lit_1_1"
  by (simp_all add: float_gt_def lit_1_2_def lit_1_1_def lit_1_0_def lit_0_9_def)

text \<open>
  The three inexact literals are the doubles nearest to the decimal fractions: each differs
  from its fraction by less than half a unit in the last place.
\<close>

lemma literals_nearest:
  "\<bar>10 * 5404319552844595 - 12 * (2::int) ^ 52\<bar> < 5"
  "\<bar>10 * 4953959590107546 - 11 * (2::int) ^ 52\<bar> < 5"
  "\<bar>10 * 8106479329266893 - 9 * (2::int) ^ 53\<bar> < 5"
  by simp_all
lemma base_cases:
  "dict_get base_scores post_type \<lparr>likes = 50, comments = 10, shares = 15\<rparr>
     \<in> set [\<lparr>likes = 45, comments = 8, shares = 12\<rparr>, \<lparr>likes = 65, comments = 15, shares = 25\<rparr>,
            \<lparr>likes = 35, comments = 6, shares = 8\<rparr>, \<lparr>likes = 55, comments = 12, shares = 20\<rparr>,
            \<lparr>likes = 50, comments = 10, shares = 15\<rparr>]"
  by (simp add: dict_get_def base_scores_def)

lemma base_values:
  fixes b :: base_score
  assumes "b = dict_get base_scores post_type \<lparr>likes = 50, comments = 10, shares = 15\<rparr>"
  shows "likes b \<in> set [45, 8, 12, 65, 15, 25, 35, 6, 55, 20, 50, 10]"
    and "comments b \<in> set [45, 8, 12, 65, 15, 25, 35, 6, 55, 20, 50, 10]"
    and "shares b \<in> set [45, 8, 12, 65, 15, 25, 35, 6, 55, 20, 50, 10]"
  using base_cases[of post_type] unfolding assms[symmetric] by auto

lemma tone_cases:
  "(dict_get tone_multipliers tone lit_1_0, spec_tenths tone)
     \<in> set [(lit_1_2, 12), (lit_1_1, 11), (lit_1_0, 10), (lit_0_9, 9)]"
  by (simp add: dict_get_def tone_multipliers_def spec_tenths_def)

lemma multiplier_exact:
  assumes "m = dict_get tone_multipliers tone lit_1_0" and "t = spec_tenths tone"
    and "v \<in> set [45, 8, 12, 65, 15, 25, 35, 6, 55, 20, 50, 10]"
  shows "int_of_float (float_mul (float_of_int v) m) = v * t div 10"
proof -
  from tone_cases[of tone] assms(1,2) consider
    "m = lit_1_2" "t = 12" | "m = lit_1_1" "t = 11" | "m = lit_1_0" "t = 10" | "m = lit_0_9" "t = 9"
    by auto
  then show ?thesis
  proof cases
    case 1 with mul_1_2 assms(3) show ?thesis by blast
  next
    case 2 with mul_1_1 assms(3) show ?thesis by blast
  next
    case 3 with mul_1_0 assms(3) show ?thesis by blast
  next
    case 4 with mul_0_9 assms(3) show ?thesis by blast
  qed
qed

lemma multiplier_high:
  assumes "m = dict_get tone_multipliers tone lit_1_0" and "t = spec_tenths tone"
  shows "float_gt m lit_1_1 \<longleftrightarrow> 11 < t"
proof -
  from tone_cases[of tone] assms(1,2) consider
    "m = lit_1_2" "t = 12" | "m = lit_1_1" "t = 11" | "m = lit_1_0" "t = 10" | "m = lit_0_9" "t = 9"
    by auto
  then show ?thesis by cases (simp_all add: gt_1_1)
qed

text \<open>
  Claim C4. For every post type and tone, each estimate is the base value of the post type
  times the tone multiplier, truncated to an integer, where the double-precision product of
  the source agrees with the exact decimal product; the score is \<open>high\<close> exactly when the
  multiplier is greater than 1.1. A friendly tip gets 78 likes, 18 comments, 30 shares and
  \<open>high\<close>; a casual tip gets \<open>medium\<close>.
\<close>

theorem engagement_estimate:
  "estimate_engagement post_type tone =
     (let base = dict_get base_scores post_type \<lparr>likes = 50, comments = 10, shares = 15\<rparr>;
          tenths = spec_tenths tone
      in [(''estimated_likes'', PInt (likes base * tenths div 10)),
          (''estimated_comments'', PInt (comments base * tenths div 10)),
          (''estimated_shares'', PInt (shares base * tenths div 10)),
          (''engagement_score'', PStr (if 11 < tenths then ''high'' else ''medium''))])
   \<and> estimate_engagement ''tip'' ''friendly'' =
       [(''estimated_likes'', PInt 78), (''estimated_comments'', PInt 18),
        (''estimated_shares'', PInt 30), (''engagement_score'', PStr ''high'')]
   \<and> estimate_engagement ''tip'' ''casual'' =
       [(''estimated_likes'', PInt 71), (''estimated_comments'', PInt 16),
        (''estimated_shares'', PInt 27), (''engagement_score'', PStr ''medium'')]"
proof -
  have general: "estimate_engagement p t =
     (let base = dict_get base_scores p \<lparr>likes = 50, comments = 10, shares = 15\<rparr>;
          tenths = spec_tenths t
      in [(''estimated_likes'', PInt (likes base * tenths div 10)),
          (''estimated_comments'', PInt (comments base * tenths div 10)),
          (''estimated_shares'', PInt (shares base * tenths div 10)),
          (''engagement_score'', PStr (if 11 < tenths then ''high'' else ''medium''))])" for p t
  proof -
    define b where "b = dict_get base_scores p \<lparr>likes = 50, comments = 10, shares = 15\<rparr>"
    define m where "m = dict_get tone_multipliers t lit_1_0"
    define k where "k = spec_tenths t"
    note v = base_values[OF b_def]
    have "int_of_float (float_mul (float_of_int (likes b)) m) = likes b * k div 10"
      "int_of_float (float_mul (float_of_int (comments b)) m) = comments b * k div 10"
      "int_of_float (float_mul (float_of_int (shares b)) m) = shares b * k div 10"
      using multiplier_exact[OF m_def k_def] v by blast+
    moreover have "float_gt m lit_1_1 \<longleftrightarrow> 11 < k" by (rule multiplier_high[OF m_def k_def])
    ultimately show ?thesis
      unfolding estimate_engagement_def Let_def b_def[symmetric] m_def[symmetric] k_def[symmetric]
      by simp
  qed
  have tip: "dict_get base_scores ''tip'' \<lparr>likes = 50, comments = 10, shares = 15\<rparr>
      = \<lparr>likes = 65, comments = 15, shares = 25\<rparr>"
    by (simp add: dict_get_def base_scores_def)
  have "estimate_engagement ''tip'' ''friendly'' =
       [(''estimated_likes'', PInt 78), (''estimated_comments'', PInt 18),
        (''estimated_shares'', PInt 30), (''engagement_score'', PStr ''high'')]"
    unfolding general[of "''tip''" "''friendly''"] tip by (simp add: spec_tenths_def)
  moreover have "estimate_engagement ''tip'' ''casual'' =
       [(''estimated_likes'', PInt 71), (''estimated_comments'', PInt 16),
        (''estimated_shares'', PInt 27), (''engagement_score'', PStr ''medium'')]"
    unfolding general[of "''tip''" "''casual''"] tip by (simp add: spec_tenths_def)
  ultimately show ?thesis using general[of post_type tone] by blast
qed

end
